theory Spec2Isabelle
  imports Main
begin

section \<open>Values, errors and strings\<close>

text \<open>
  The three error classes of \<^verbatim>\<open>errors.js\<close> carry a message. A value thrown by the
  database driver (a rejected promise of \<^verbatim>\<open>mysql2\<close>) is no instance of them; it is kept
  apart as \<open>DriverError\<close> with the message of the thrown \<^verbatim>\<open>Error\<close>.
\<close>

datatype error =
    ValidationError string
  | AuthError string
  | ApiError string
  | DriverError string

text \<open>
  A value of TypeScript type \<^verbatim>\<open>unknown\<close> as it arrives from JSON: an object is the
  list of its entries in the order \<^verbatim>\<open>Object.entries\<close> enumerates them. Numbers are the
  integers. \<open>JHost\<close> is a driver object (a date, a buffer) known by what \<^verbatim>\<open>String\<close>
  makes of it.
\<close>

datatype jsval =
    JUndefined
  | JNull
  | JBool bool
  | JNum int
  | JStr string
  | JArr "jsval list"
  | JObj "(string \<times> jsval) list"
  | JHost string

text \<open>
  A \<^typ>\<open>string\<close> stands for a JavaScript string of code units below 256; the claims
  below only concern ASCII text. \<open>code_unit\<close> is the number a regular expression
  range compares.
\<close>

definition code_unit :: "char \<Rightarrow> nat" where
  "code_unit c = of_char c"

definition in_range :: "char \<Rightarrow> char \<Rightarrow> char \<Rightarrow> bool" where
  "in_range lo hi c = (code_unit lo \<le> code_unit c \<and> code_unit c \<le> code_unit hi)"

text \<open>\<^verbatim>\<open>Array.prototype.join\<close> on an array of strings.\<close>

fun join :: "string \<Rightarrow> string list \<Rightarrow> string" where
  "join sep [] = []"
| "join sep [x] = x"
| "join sep (x # y # ys) = x @ sep @ join sep (y # ys)"

section \<open>Identifier validation\<close>

text \<open>
  The regular expression \<^verbatim>\<open>/^[A-Za-z_][A-Za-z0-9_]*$/\<close> of \<^verbatim>\<open>assertIdentifier\<close>, tested
  against the whole string (no \<^verbatim>\<open>m\<close> flag: \<^verbatim>\<open>$\<close> is the end of the input).
\<close>

definition ident_start :: "char \<Rightarrow> bool" where
  "ident_start c =
     (in_range CHR ''A'' CHR ''Z'' c \<or> in_range CHR ''a'' CHR ''z'' c \<or> c = CHR ''_'')"

definition ident_char :: "char \<Rightarrow> bool" where
  "ident_char c =
     (in_range CHR ''A'' CHR ''Z'' c \<or> in_range CHR ''a'' CHR ''z'' c
      \<or> in_range CHR ''0'' CHR ''9'' c \<or> c = CHR ''_'')"

fun matches_identifier :: "string \<Rightarrow> bool" where
  "matches_identifier [] = False"
| "matches_identifier (c # cs) = (ident_start c \<and> list_all ident_char cs)"

definition assertIdentifier :: "string \<Rightarrow> string \<Rightarrow> error + string" where
  "assertIdentifier v field =
     (if \<not> matches_identifier v
      then Inl (ValidationError
             (''Invalid parameter: '' @ field
              @ '' must contain only letters, numbers, and underscore''))
      else Inr v)"

definition escapeIdentifier :: "string \<Rightarrow> string \<Rightarrow> error + string" where
  "escapeIdentifier v field =
     (case assertIdentifier v field of
        Inl e \<Rightarrow> Inl e
      | Inr checked \<Rightarrow> Inr (''`'' @ checked @ ''`''))"

section \<open>The WHERE clause\<close>

record where_clause =
  sql :: string
  vals :: "jsval list"

text \<open>
  The loop of \<^verbatim>\<open>buildWhereClause\<close> over \<^verbatim>\<open>Object.entries(where)\<close>, with the two arrays it
  pushes to; a key that is no identifier throws out of the loop.
\<close>

fun where_loop ::
  "(string \<times> jsval) list \<Rightarrow> string list \<Rightarrow> jsval list \<Rightarrow> error + (string list \<times> jsval list)"
where
  "where_loop [] parts values = Inr (parts, values)"
| "where_loop ((key, v) # rest) parts values =
     (case escapeIdentifier key (''where.'' @ key) of
        Inl e \<Rightarrow> Inl e
      | Inr escapedKey \<Rightarrow>
          if v = JNull
          then where_loop rest (parts @ [escapedKey @ '' IS NULL'']) values
          else where_loop rest (parts @ [escapedKey @ '' = ?'']) (values @ [v]))"

definition buildWhereClause :: "(string \<times> jsval) list option \<Rightarrow> error + where_clause" where
  "buildWhereClause w =
     (case w of
        None \<Rightarrow> Inr \<lparr>sql = [], vals = []\<rparr>
      | Some entries \<Rightarrow>
          if length entries = 0 then Inr \<lparr>sql = [], vals = []\<rparr>
          else (case where_loop entries [] [] of
                  Inl e \<Rightarrow> Inl e
                | Inr (parts, values) \<Rightarrow>
                    Inr \<lparr>sql = '' WHERE '' @ join '' AND '' parts, vals = values\<rparr>))"


section \<open>JavaScript primitives used by the gateway\<close>

text \<open>Decimal digits of a natural number, for \<^verbatim>\<open>String(n)\<close> on an integer.\<close>

fun digits :: "nat \<Rightarrow> string" where
  "digits n =
     (if n < 10 then [char_of (48 + n)]
      else digits (n div 10) @ [char_of (48 + n mod 10)])"

declare digits.simps [simp del]

text \<open>
  \<^verbatim>\<open>String(v)\<close>. An array joins its elements with a comma, \<^verbatim>\<open>null\<close> and
  \<^verbatim>\<open>undefined\<close> elements as the empty string. A number is printed in decimal digits,
  which is what JavaScript does for the integers below \<^verbatim>\<open>1e21\<close> in magnitude that a
  double holds exactly; larger numbers, which it prints with an exponent, are outside
  what this function models. It is used for the strings made of the server's rows only.
\<close>

fun js_String :: "jsval \<Rightarrow> string" where
  "js_String JUndefined = ''undefined''"
| "js_String JNull = ''null''"
| "js_String (JBool b) = (if b then ''true'' else ''false'')"
| "js_String (JNum n) = (if n < 0 then ''-'' @ digits (nat (- n)) else digits (nat n))"
| "js_String (JStr s) = s"
| "js_String (JArr xs) =
     join '','' (map (\<lambda>x. if x = JNull \<or> x = JUndefined then [] else js_String x) xs)"
| "js_String (JObj entries) = ''[object Object]''"
| "js_String (JHost s) = s"

text \<open>Truthiness, for \<^verbatim>\<open>x || y\<close> and \<^verbatim>\<open>if (x)\<close>.\<close>

fun js_truthy :: "jsval \<Rightarrow> bool" where
  "js_truthy JUndefined = False"
| "js_truthy JNull = False"
| "js_truthy (JBool b) = b"
| "js_truthy (JNum n) = (n \<noteq> 0)"
| "js_truthy (JStr s) = (s \<noteq> [])"
| "js_truthy _ = True"

text \<open>\<^verbatim>\<open>a ?? b\<close> on optional values.\<close>

definition nullish :: "'a option \<Rightarrow> 'a option \<Rightarrow> 'a option" where
  "nullish a b = (case a of None \<Rightarrow> b | Some x \<Rightarrow> Some x)"

text \<open>Property access on an object: a missing key reads as \<^verbatim>\<open>undefined\<close>.\<close>

definition js_get :: "(string \<times> jsval) list \<Rightarrow> string \<Rightarrow> jsval" where
  "js_get obj k = (case map_of obj k of None \<Rightarrow> JUndefined | Some v \<Rightarrow> v)"

text \<open>
  \<^verbatim>\<open>toUpperCase\<close> as it acts on ASCII text: the letters \<^verbatim>\<open>a\<close> to \<^verbatim>\<open>z\<close> go to upper case
  and every other ASCII code unit stays. Code units from 128 on are left as they are,
  which is not what JavaScript does for the accented letters: a property below that
  reads the upper case of a token does so for ASCII tokens, or for tokens whose upper
  case is \<^verbatim>\<open>ASC\<close> or \<^verbatim>\<open>DESC\<close>, for which both agree.
\<close>

definition upper_char :: "char \<Rightarrow> char" where
  "upper_char c = (if in_range CHR ''a'' CHR ''z'' c then char_of (code_unit c - 32) else c)"

definition toUpperCase :: "string \<Rightarrow> string" where
  "toUpperCase s = map upper_char s"

text \<open>
  The class \<^verbatim>\<open>\s\<close> among the code units below 256: tab, line feed, vertical tab, form
  feed, carriage return, space and the no-break space.
\<close>

definition is_space :: "char \<Rightarrow> bool" where
  "is_space c = (code_unit c \<in> {9, 10, 11, 12, 13, 32, 160})"

text \<open>
  \<^verbatim>\<open>s.split(/\s+/)\<close>: the pieces between the maximal runs of white space; a run at the
  start or at the end leaves an empty piece there, and the empty string gives one empty
  piece.
\<close>

function split_from :: "string \<Rightarrow> string \<Rightarrow> string list" where
  "split_from cur [] = [cur]"
| "split_from cur (c # cs) =
     (if is_space c then cur # split_from [] (dropWhile is_space cs)
      else split_from (cur @ [c]) cs)"
  by pat_completeness auto
termination
  by (relation "measure (\<lambda>(cur, rest). length rest)")
     (auto simp: length_dropWhile_le less_Suc_eq_le)

definition split_ws :: "string \<Rightarrow> string list" where
  "split_ws s = split_from [] s"

section \<open>The driver and the state of the gateway\<close>

datatype pool = Pool nat

datatype connection = Connection nat

type_synonym row = "(string \<times> jsval) list"

record ResultSetHeader =
  affectedRows :: int
  changedRows :: int
  insertId :: int

record PoolOptions =
  opt_host :: string
  opt_port :: int
  opt_user :: string
  opt_password :: string
  opt_database :: "string option"
  opt_ssl :: bool
  waitForConnections :: bool
  connectionLimit :: int
  queueLimit :: int

text \<open>What the gateway asks of \<^verbatim>\<open>mysql2\<close>, in the order it asks.\<close>

datatype call =
    CreatePool PoolOptions
  | PoolEnd pool
  | PoolQuery pool string "jsval list"
  | PoolExecute pool string "jsval list"
  | GetConnection pool
  | ConnectionQuery connection string "jsval list"
  | Release connection

text \<open>
  The driver is opaque: each answer may depend on everything asked so far. \<open>Inl m\<close> is a
  thrown \<^verbatim>\<open>Error\<close> with message \<open>m\<close>. The answer types are the type arguments the
  source gives: rows for \<^verbatim>\<open>pool.query<RowDataPacket[]>\<close>, a header for
  \<^verbatim>\<open>pool.execute<ResultSetHeader>\<close>, either for the query on a connection.
\<close>

record driver =
  createPool :: "call list \<Rightarrow> PoolOptions \<Rightarrow> string + pool"
  pool_end :: "call list \<Rightarrow> pool \<Rightarrow> string + unit"
  pool_query :: "call list \<Rightarrow> pool \<Rightarrow> string \<Rightarrow> jsval list \<Rightarrow> string + row list"
  pool_execute :: "call list \<Rightarrow> pool \<Rightarrow> string \<Rightarrow> jsval list \<Rightarrow> string + ResultSetHeader"
  getConnection :: "call list \<Rightarrow> pool \<Rightarrow> string + connection"
  connection_query ::
    "call list \<Rightarrow> connection \<Rightarrow> string \<Rightarrow> jsval list \<Rightarrow> string + (row list + ResultSetHeader)"

record AuthSession =
  host :: string
  port :: int
  user :: string
  database :: "string option"
  ssl :: bool

text \<open>The two private fields of \<^verbatim>\<open>MySqlApi\<close>.\<close>

record MySqlApi =
  pool :: "pool option"
  session :: "AuthSession option"

text \<open>
  The gateway together with the calls the driver has received. The methods are taken
  one call at a time, each running to its end: what two pending calls do to each other
  at an \<^verbatim>\<open>await\<close> is not part of the model.
\<close>

record system = MySqlApi +
  calls :: "call list"

definition initial :: system where
  "initial = \<lparr>pool = None, session = None, calls = []\<rparr>"

definition do_createPool :: "driver \<Rightarrow> system \<Rightarrow> PoolOptions \<Rightarrow> (string + pool) \<times> system" where
  "do_createPool drv s options =
     (createPool drv (calls s) options, s\<lparr>calls := calls s @ [CreatePool options]\<rparr>)"

definition do_pool_end :: "driver \<Rightarrow> system \<Rightarrow> pool \<Rightarrow> (string + unit) \<times> system" where
  "do_pool_end drv s p = (pool_end drv (calls s) p, s\<lparr>calls := calls s @ [PoolEnd p]\<rparr>)"

definition do_pool_query ::
  "driver \<Rightarrow> system \<Rightarrow> pool \<Rightarrow> string \<Rightarrow> jsval list \<Rightarrow> (string + row list) \<times> system"
where
  "do_pool_query drv s p q vs =
     (pool_query drv (calls s) p q vs, s\<lparr>calls := calls s @ [PoolQuery p q vs]\<rparr>)"

definition do_pool_execute ::
  "driver \<Rightarrow> system \<Rightarrow> pool \<Rightarrow> string \<Rightarrow> jsval list \<Rightarrow> (string + ResultSetHeader) \<times> system"
where
  "do_pool_execute drv s p q vs =
     (pool_execute drv (calls s) p q vs, s\<lparr>calls := calls s @ [PoolExecute p q vs]\<rparr>)"

definition do_getConnection :: "driver \<Rightarrow> system \<Rightarrow> pool \<Rightarrow> (string + connection) \<times> system" where
  "do_getConnection drv s p =
     (getConnection drv (calls s) p, s\<lparr>calls := calls s @ [GetConnection p]\<rparr>)"

definition do_connection_query ::
  "driver \<Rightarrow> system \<Rightarrow> connection \<Rightarrow> string \<Rightarrow> jsval list
    \<Rightarrow> (string + (row list + ResultSetHeader)) \<times> system"
where
  "do_connection_query drv s c q vs =
     (connection_query drv (calls s) c q vs, s\<lparr>calls := calls s @ [ConnectionQuery c q vs]\<rparr>)"

definition do_release :: "system \<Rightarrow> connection \<Rightarrow> system" where
  "do_release s c = s\<lparr>calls := calls s @ [Release c]\<rparr>"

section \<open>The gateway: session operations\<close>

record MySqlAuthArgs =
  auth_host :: string
  auth_port :: "int option"
  auth_user :: string
  auth_password :: string
  auth_database :: "string option"
  auth_ssl :: "bool option"

text \<open>What \<^verbatim>\<open>authMySql\<close> resolves to: the session's fields and \<^verbatim>\<open>authenticated\<close>.\<close>

record AuthResult = AuthSession +
  authenticated :: bool

record AuthStatus =
  status_authenticated :: bool
  status_session :: "AuthSession option"

record LogoutResult =
  logout_message :: string
  logout_authenticated :: bool

record HealthResponse =
  ok :: bool
  health_authenticated :: bool
  message :: string
  serverTime :: "string option"

definition not_authenticated :: error where
  "not_authenticated = AuthError ''Not authenticated. Call auth_mysql first.''"

definition ensureAuthenticated :: "system \<Rightarrow> error + pool" where
  "ensureAuthenticated s =
     (case pool s of
        None \<Rightarrow> Inl not_authenticated
      | Some p \<Rightarrow> Inr p)"

definition no_database_selected :: error where
  "no_database_selected = ValidationError
     ''No database selected. Call use_database, pass database parameter, or authenticate with a default database.''"

text \<open>\<^verbatim>\<open>this.session?.database\<close>, \<^verbatim>\<open>null\<close> and \<^verbatim>\<open>undefined\<close> both as \<open>None\<close>.\<close>

definition session_database :: "system \<Rightarrow> string option" where
  "session_database s =
     (case session s of None \<Rightarrow> None | Some ss \<Rightarrow> database ss)"

definition escapeTableReference :: "system \<Rightarrow> string \<Rightarrow> string option \<Rightarrow> error + string" where
  "escapeTableReference s table db =
     (case escapeIdentifier table ''table'' of
        Inl e \<Rightarrow> Inl e
      | Inr escapedTable \<Rightarrow>
          (case nullish db (session_database s) of
             None \<Rightarrow> Inl no_database_selected
           | Some resolvedDatabase \<Rightarrow>
               if resolvedDatabase = [] then Inl no_database_selected
               else (case escapeIdentifier resolvedDatabase ''database'' of
                       Inl e \<Rightarrow> Inl e
                     | Inr escapedDatabase \<Rightarrow> Inr (escapedDatabase @ ''.'' @ escapedTable))))"

definition resolveDatabase :: "system \<Rightarrow> string option \<Rightarrow> error + string" where
  "resolveDatabase s db =
     (case nullish db (session_database s) of
        None \<Rightarrow> Inl no_database_selected
      | Some resolved \<Rightarrow>
          if resolved = [] then Inl no_database_selected
          else assertIdentifier resolved ''database'')"

definition poolOptions :: "MySqlAuthArgs \<Rightarrow> PoolOptions" where
  "poolOptions args =
     \<lparr>opt_host = auth_host args,
      opt_port = (case auth_port args of None \<Rightarrow> 3306 | Some n \<Rightarrow> n),
      opt_user = auth_user args,
      opt_password = auth_password args,
      opt_database = auth_database args,
      opt_ssl = (auth_ssl args = Some True),
      waitForConnections = True,
      connectionLimit = 5,
      queueLimit = 0\<rparr>"

text \<open>\<^verbatim>\<open>if (this.pool) { await this.pool.end(); }\<close>, outside any \<^verbatim>\<open>try\<close>.\<close>

definition end_current_pool :: "driver \<Rightarrow> system \<Rightarrow> (string + unit) \<times> system" where
  "end_current_pool drv s =
     (case pool s of
        None \<Rightarrow> (Inr (), s)
      | Some p \<Rightarrow> do_pool_end drv s p)"

text \<open>The \<^verbatim>\<open>catch\<close> block of \<^verbatim>\<open>authMySql\<close>.\<close>

definition auth_failed :: "system \<Rightarrow> string \<Rightarrow> (error + AuthResult) \<times> system" where
  "auth_failed s msg =
     (Inl (AuthError (''MySQL authentication failed: '' @ msg)),
      s\<lparr>pool := None, session := None\<rparr>)"

definition authMySql :: "driver \<Rightarrow> system \<Rightarrow> MySqlAuthArgs \<Rightarrow> (error + AuthResult) \<times> system" where
  "authMySql drv s args =
     (case end_current_pool drv s of
        (Inl m, s1) \<Rightarrow> (Inl (DriverError m), s1)
      | (Inr u, s1) \<Rightarrow>
          (let options = poolOptions args in
           case do_createPool drv s1 options of
             (Inl m, s2) \<Rightarrow> auth_failed s2 m
           | (Inr p, s2) \<Rightarrow>
               (case do_pool_query drv s2 p ''SELECT 1'' [] of
                  (Inl m, s3) \<Rightarrow> auth_failed s3 m
                | (Inr rows, s3) \<Rightarrow>
                    (Inr \<lparr>host = opt_host options,
                          port = (if opt_port options = 0 then 3306 else opt_port options),
                          user = auth_user args,
                          database = auth_database args,
                          ssl = (auth_ssl args = Some True),
                          authenticated = True\<rparr>,
                     s3\<lparr>pool := Some p,
                        session := Some
                          \<lparr>host = opt_host options,
                           port = (if opt_port options = 0 then 3306 else opt_port options),
                           user = auth_user args,
                           database = auth_database args,
                           ssl = (auth_ssl args = Some True)\<rparr>\<rparr>))))"

definition getAuthStatus :: "system \<Rightarrow> AuthStatus" where
  "getAuthStatus s =
     \<lparr>status_authenticated = (pool s \<noteq> None), status_session = session s\<rparr>"

definition logout :: "driver \<Rightarrow> system \<Rightarrow> (error + LogoutResult) \<times> system" where
  "logout drv s =
     (case end_current_pool drv s of
        (Inl m, s1) \<Rightarrow> (Inl (DriverError m), s1)
      | (Inr u, s1) \<Rightarrow>
          (Inr \<lparr>logout_message = ''MySQL session cleared'', logout_authenticated = False\<rparr>,
           s1\<lparr>pool := None, session := None\<rparr>))"

text \<open>\<^verbatim>\<open>rows[0]?.serverTime ?? ''\<close>.\<close>

definition first_serverTime :: "row list \<Rightarrow> jsval" where
  "first_serverTime rows =
     (case rows of
        [] \<Rightarrow> JStr []
      | r # rest \<Rightarrow>
          (let v = js_get r ''serverTime'' in
           if v = JUndefined \<or> v = JNull then JStr [] else v))"

definition health :: "driver \<Rightarrow> system \<Rightarrow> (error + HealthResponse) \<times> system" where
  "health drv s =
     (if pool s = None
      then (Inr \<lparr>ok = False, health_authenticated = False,
                 message = ''Not authenticated'', serverTime = None\<rparr>, s)
      else (case ensureAuthenticated s of
              Inl e \<Rightarrow> (Inl e, s)
            | Inr p \<Rightarrow>
                (case do_pool_query drv s p ''SELECT NOW() AS serverTime'' [] of
                   (Inl m, s1) \<Rightarrow> (Inl (DriverError m), s1)
                 | (Inr rows, s1) \<Rightarrow>
                     (Inr \<lparr>ok = True, health_authenticated = True,
                           message = ''MySQL connection is healthy'',
                           serverTime = Some (js_String (first_serverTime rows))\<rparr>, s1))))"

record UseDatabaseArgs =
  use_database :: string

record UseDatabaseResult =
  use_message :: string
  use_result_database :: string
  use_authenticated :: bool

definition schemata_sql :: string where
  "schemata_sql =
     ''SELECT SCHEMA_NAME AS name FROM information_schema.schemata WHERE SCHEMA_NAME = ?''"

definition useDatabase ::
  "driver \<Rightarrow> system \<Rightarrow> UseDatabaseArgs \<Rightarrow> (error + UseDatabaseResult) \<times> system"
where
  "useDatabase drv s args =
     (case ensureAuthenticated s of
        Inl e \<Rightarrow> (Inl e, s)
      | Inr p \<Rightarrow>
          (case assertIdentifier (use_database args) ''database'' of
             Inl e \<Rightarrow> (Inl e, s)
           | Inr db \<Rightarrow>
               (case do_pool_query drv s p schemata_sql [JStr db] of
                  (Inl m, s1) \<Rightarrow> (Inl (DriverError m), s1)
                | (Inr rows, s1) \<Rightarrow>
                    if length rows = 0
                    then (Inl (ApiError (''Database not found: '' @ db)), s1)
                    else (case session s1 of
                            None \<Rightarrow> (Inl not_authenticated, s1)
                          | Some ss \<Rightarrow>
                              (Inr \<lparr>use_message = ''Default database set to '' @ db,
                                    use_result_database = db,
                                    use_authenticated = True\<rparr>,
                               s1\<lparr>session := Some (ss\<lparr>database := Some db\<rparr>)\<rparr>)))))"

section \<open>The gateway: schema operations\<close>

record DatabaseInfo =
  db_name :: string

record TableInfo =
  tbl_database :: string
  tbl_name :: string
  tbl_type :: string

record ColumnInfo =
  col_name :: string
  col_dataType :: string
  col_isNullable :: bool
  col_key :: string
  col_defaultValue :: jsval
  col_extra :: string

record DescribeTableArgs =
  desc_table :: string
  desc_database :: "string option"

record DescribeTableResult =
  described_table :: string
  described_database :: string
  described_columns :: "ColumnInfo list"

definition newline :: string where
  "newline = [CHR 0x0A]"

text \<open>\<^verbatim>\<open>Object.values(row)[0]\<close>.\<close>

definition first_value :: "row \<Rightarrow> jsval" where
  "first_value r = (case r of [] \<Rightarrow> JUndefined | kv # rest \<Rightarrow> snd kv)"

text \<open>\<^verbatim>\<open>String(v || '')\<close>.\<close>

definition string_or_empty :: "jsval \<Rightarrow> string" where
  "string_or_empty v = (if js_truthy v then js_String v else [])"

definition listDatabases :: "driver \<Rightarrow> system \<Rightarrow> (error + DatabaseInfo list) \<times> system" where
  "listDatabases drv s =
     (case ensureAuthenticated s of
        Inl e \<Rightarrow> (Inl e, s)
      | Inr p \<Rightarrow>
          (case do_pool_query drv s p ''SHOW DATABASES'' [] of
             (Inl m, s1) \<Rightarrow> (Inl (DriverError m), s1)
           | (Inr rows, s1) \<Rightarrow>
               (Inr (map (\<lambda>r. \<lparr>db_name = js_String (first_value r)\<rparr>) rows), s1)))"

definition listTables_sql :: string where
  "listTables_sql = join newline
     [[],
      ''      SELECT TABLE_SCHEMA AS databaseName, TABLE_NAME AS tableName, TABLE_TYPE AS tableType'',
      ''      FROM information_schema.tables'',
      ''      WHERE TABLE_SCHEMA = ?'',
      ''      ORDER BY TABLE_NAME'',
      ''    '']"

definition listTables ::
  "driver \<Rightarrow> system \<Rightarrow> string option \<Rightarrow> (error + TableInfo list) \<times> system"
where
  "listTables drv s db =
     (case ensureAuthenticated s of
        Inl e \<Rightarrow> (Inl e, s)
      | Inr p \<Rightarrow>
          (case resolveDatabase s db of
             Inl e \<Rightarrow> (Inl e, s)
           | Inr targetDatabase \<Rightarrow>
               (case do_pool_query drv s p listTables_sql [JStr targetDatabase] of
                  (Inl m, s1) \<Rightarrow> (Inl (DriverError m), s1)
                | (Inr rows, s1) \<Rightarrow>
                    (Inr (map (\<lambda>r. \<lparr>tbl_database = js_String (js_get r ''databaseName''),
                                     tbl_name = js_String (js_get r ''tableName''),
                                     tbl_type = js_String (js_get r ''tableType'')\<rparr>) rows),
                     s1))))"

definition describeTable_sql :: string where
  "describeTable_sql = join newline
     [[],
      ''      SELECT'',
      ''        COLUMN_NAME AS columnName,'',
      ''        DATA_TYPE AS dataType,'',
      ''        IS_NULLABLE AS isNullable,'',
      ''        COLUMN_KEY AS columnKey,'',
      ''        COLUMN_DEFAULT AS defaultValue,'',
      ''        EXTRA AS extra'',
      ''      FROM information_schema.columns'',
      ''      WHERE TABLE_SCHEMA = ?'',
      ''        AND TABLE_NAME = ?'',
      ''      ORDER BY ORDINAL_POSITION'',
      ''    '']"

definition column_of_row :: "row \<Rightarrow> ColumnInfo" where
  "column_of_row r =
     \<lparr>col_name = js_String (js_get r ''columnName''),
      col_dataType = js_String (js_get r ''dataType''),
      col_isNullable = (toUpperCase (js_String (js_get r ''isNullable'')) = ''YES''),
      col_key = string_or_empty (js_get r ''columnKey''),
      col_defaultValue = js_get r ''defaultValue'',
      col_extra = string_or_empty (js_get r ''extra'')\<rparr>"

definition describeTable ::
  "driver \<Rightarrow> system \<Rightarrow> DescribeTableArgs \<Rightarrow> (error + DescribeTableResult) \<times> system"
where
  "describeTable drv s args =
     (case ensureAuthenticated s of
        Inl e \<Rightarrow> (Inl e, s)
      | Inr p \<Rightarrow>
          (case assertIdentifier (desc_table args) ''table'' of
             Inl e \<Rightarrow> (Inl e, s)
           | Inr table \<Rightarrow>
               (case resolveDatabase s (desc_database args) of
                  Inl e \<Rightarrow> (Inl e, s)
                | Inr db \<Rightarrow>
                    (case do_pool_query drv s p describeTable_sql [JStr db, JStr table] of
                       (Inl m, s1) \<Rightarrow> (Inl (DriverError m), s1)
                     | (Inr rows, s1) \<Rightarrow>
                         if length rows = 0
                         then (Inl (ApiError (''Table not found: '' @ table)), s1)
                         else (Inr \<lparr>described_table = table,
                                    described_database = db,
                                    described_columns = map column_of_row rows\<rparr>, s1)))))"

section \<open>The gateway: row operations\<close>

record SelectRowsArgs =
  sel_table :: string
  sel_database :: "string option"
  sel_columns :: "string list option"
  sel_where :: "(string \<times> jsval) list option"
  sel_orderBy :: "string option"
  sel_limit :: "int option"
  sel_offset :: "int option"

record SelectRowsResult =
  items :: "row list"
  count :: nat

record InsertRowArgs =
  ins_table :: string
  ins_database :: "string option"
  ins_data :: "(string \<times> jsval) list"

record InsertRowResult =
  insertedId :: int
  inserted_affectedRows :: int

record UpdateRowsArgs =
  upd_table :: string
  upd_database :: "string option"
  upd_data :: "(string \<times> jsval) list"
  upd_where :: "(string \<times> jsval) list"

record DeleteRowsArgs =
  del_table :: string
  del_database :: "string option"
  del_where :: "(string \<times> jsval) list"

record ExecuteSqlArgs =
  exe_sql :: string
  exe_params :: "jsval list option"
  exe_database :: "string option"

text \<open>
  The two shapes of the result of \<^verbatim>\<open>executeSql\<close>: mode \<^verbatim>\<open>query\<close> with \<^verbatim>\<open>sql\<close>,
  \<^verbatim>\<open>database\<close>, \<^verbatim>\<open>count\<close> and \<^verbatim>\<open>items\<close>; mode \<^verbatim>\<open>mutation\<close> with \<^verbatim>\<open>sql\<close>, \<^verbatim>\<open>database\<close>,
  \<^verbatim>\<open>affectedRows\<close>, \<^verbatim>\<open>changedRows\<close> and \<^verbatim>\<open>insertId\<close>.
\<close>

datatype ExecuteSqlResult =
    QueryMode string "string option" nat "row list"
  | MutationMode string "string option" int int int

text \<open>
  \<^verbatim>\<open>xs.map((x) => this.escapeIdentifier(x, label(x)))\<close>: the first element that is no
  identifier throws.
\<close>

fun escape_each :: "(string \<Rightarrow> string) \<Rightarrow> string list \<Rightarrow> error + string list" where
  "escape_each label [] = Inr []"
| "escape_each label (x # xs) =
     (case escapeIdentifier x (label x) of
        Inl e \<Rightarrow> Inl e
      | Inr q \<Rightarrow>
          (case escape_each label xs of
             Inl e \<Rightarrow> Inl e
           | Inr qs \<Rightarrow> Inr (q # qs)))"

text \<open>The column list of \<^verbatim>\<open>selectRows\<close>: \<^verbatim>\<open>*\<close> when no column is named.\<close>

definition select_columns :: "string list option \<Rightarrow> error + string" where
  "select_columns cols =
     (case cols of
        None \<Rightarrow> Inr ''*''
      | Some cs \<Rightarrow>
          if length cs = 0 then Inr ''*''
          else (case escape_each (\<lambda>c. ''columns.'' @ c) cs of
                  Inl e \<Rightarrow> Inl e
                | Inr qs \<Rightarrow> Inr (join '', '' qs)))"

text \<open>
  The \<^verbatim>\<open>orderBy\<close> block of \<^verbatim>\<open>selectRows\<close>: the first two pieces of the split are the
  column and the direction, further pieces are not looked at. The split of a string
  always has a first piece.
\<close>

definition order_by_sql :: "string option \<Rightarrow> error + string" where
  "order_by_sql ob =
     (case ob of
        None \<Rightarrow> Inr []
      | Some expr \<Rightarrow>
          if expr = [] then Inr []
          else (case split_ws expr of
                  [] \<Rightarrow> Inr []
                | column # further \<Rightarrow>
                    (case escapeIdentifier column ''orderBy'' of
                       Inl e \<Rightarrow> Inl e
                     | Inr q \<Rightarrow>
                         (case further of
                            [] \<Rightarrow> Inr ('' ORDER BY '' @ q)
                          | direction # others \<Rightarrow>
                              if direction = [] then Inr ('' ORDER BY '' @ q)
                              else Inr ('' ORDER BY '' @ q @ '' '' @ toUpperCase direction)))))"

text \<open>The \<^verbatim>\<open>limit\<close> and \<^verbatim>\<open>offset\<close> blocks: the SQL suffix and the values pushed.\<close>

definition limit_offset :: "int option \<Rightarrow> int option \<Rightarrow> error + (string \<times> jsval list)" where
  "limit_offset lim off =
     (let (limitSql, pushed) =
            (case lim of None \<Rightarrow> ([], []) | Some l \<Rightarrow> ('' LIMIT ?'', [JNum l]))
      in case off of
           None \<Rightarrow> Inr (limitSql, pushed)
         | Some k \<Rightarrow>
             if lim = None then Inl (ValidationError ''Invalid parameter: offset requires limit'')
             else Inr (limitSql @ '' OFFSET ?'', pushed @ [JNum k]))"

text \<open>
  The statement \<^verbatim>\<open>selectRows\<close> hands to \<^verbatim>\<open>pool.query\<close> and its bound values: the part of
  the method between \<^verbatim>\<open>ensureAuthenticated\<close> and the query.
\<close>

definition select_statement :: "system \<Rightarrow> SelectRowsArgs \<Rightarrow> error + (string \<times> jsval list)" where
  "select_statement s args =
     (case escapeTableReference s (sel_table args) (sel_database args) of
        Inl e \<Rightarrow> Inl e
      | Inr tableRef \<Rightarrow>
          (case select_columns (sel_columns args) of
             Inl e \<Rightarrow> Inl e
           | Inr columns \<Rightarrow>
               (case buildWhereClause (sel_where args) of
                  Inl e \<Rightarrow> Inl e
                | Inr wh \<Rightarrow>
                    (case order_by_sql (sel_orderBy args) of
                       Inl e \<Rightarrow> Inl e
                     | Inr orderBySql \<Rightarrow>
                         (case limit_offset (sel_limit args) (sel_offset args) of
                            Inl e \<Rightarrow> Inl e
                          | Inr (limitSql, pushed) \<Rightarrow>
                              Inr (''SELECT '' @ columns @ '' FROM '' @ tableRef @ sql wh
                                     @ orderBySql @ limitSql,
                                   vals wh @ pushed))))))"

definition selectRows ::
  "driver \<Rightarrow> system \<Rightarrow> SelectRowsArgs \<Rightarrow> (error + SelectRowsResult) \<times> system"
where
  "selectRows drv s args =
     (case ensureAuthenticated s of
        Inl e \<Rightarrow> (Inl e, s)
      | Inr p \<Rightarrow>
          (case select_statement s args of
             Inl e \<Rightarrow> (Inl e, s)
           | Inr (q, values) \<Rightarrow>
               (case do_pool_query drv s p q values of
                  (Inl m, s1) \<Rightarrow> (Inl (DriverError m), s1)
                | (Inr rows, s1) \<Rightarrow> (Inr \<lparr>items = rows, count = length rows\<rparr>, s1))))"

definition insertRow ::
  "driver \<Rightarrow> system \<Rightarrow> InsertRowArgs \<Rightarrow> (error + InsertRowResult) \<times> system"
where
  "insertRow drv s args =
     (case ensureAuthenticated s of
        Inl e \<Rightarrow> (Inl e, s)
      | Inr p \<Rightarrow>
          (case escapeTableReference s (ins_table args) (ins_database args) of
             Inl e \<Rightarrow> (Inl e, s)
           | Inr tableRef \<Rightarrow>
               if length (ins_data args) = 0
               then (Inl (ValidationError ''Invalid parameter: data cannot be empty''), s)
               else (case escape_each (\<lambda>k. ''data.'' @ k) (map fst (ins_data args)) of
                       Inl e \<Rightarrow> (Inl e, s)
                     | Inr qs \<Rightarrow>
                         (case do_pool_execute drv s p
                                 (''INSERT INTO '' @ tableRef @ '' ('' @ join '', '' qs
                                    @ '') VALUES (''
                                    @ join '', '' (map (\<lambda>e. ''?'') (ins_data args)) @ '')'')
                                 (map snd (ins_data args)) of
                            (Inl m, s1) \<Rightarrow> (Inl (DriverError m), s1)
                          | (Inr h, s1) \<Rightarrow>
                              (Inr \<lparr>insertedId = insertId h,
                                    inserted_affectedRows = affectedRows h\<rparr>, s1)))))"

definition updateRows :: "driver \<Rightarrow> system \<Rightarrow> UpdateRowsArgs \<Rightarrow> (error + int) \<times> system" where
  "updateRows drv s args =
     (case ensureAuthenticated s of
        Inl e \<Rightarrow> (Inl e, s)
      | Inr p \<Rightarrow>
          (case escapeTableReference s (upd_table args) (upd_database args) of
             Inl e \<Rightarrow> (Inl e, s)
           | Inr tableRef \<Rightarrow>
               if length (upd_data args) = 0
               then (Inl (ValidationError ''Invalid parameter: data cannot be empty''), s)
               else (case escape_each (\<lambda>k. ''data.'' @ k) (map fst (upd_data args)) of
                       Inl e \<Rightarrow> (Inl e, s)
                     | Inr qs \<Rightarrow>
                         (case buildWhereClause (Some (upd_where args)) of
                            Inl e \<Rightarrow> (Inl e, s)
                          | Inr wh \<Rightarrow>
                              if sql wh = []
                              then (Inl (ValidationError
                                      ''Invalid parameter: where cannot be empty for update_rows''), s)
                              else (case do_pool_execute drv s p
                                           (''UPDATE '' @ tableRef @ '' SET ''
                                              @ join '', '' (map (\<lambda>q. q @ '' = ?'') qs) @ sql wh)
                                           (map snd (upd_data args) @ vals wh) of
                                      (Inl m, s1) \<Rightarrow> (Inl (DriverError m), s1)
                                    | (Inr h, s1) \<Rightarrow> (Inr (affectedRows h), s1))))))"

definition deleteRows :: "driver \<Rightarrow> system \<Rightarrow> DeleteRowsArgs \<Rightarrow> (error + int) \<times> system" where
  "deleteRows drv s args =
     (case ensureAuthenticated s of
        Inl e \<Rightarrow> (Inl e, s)
      | Inr p \<Rightarrow>
          (case escapeTableReference s (del_table args) (del_database args) of
             Inl e \<Rightarrow> (Inl e, s)
           | Inr tableRef \<Rightarrow>
               (case buildWhereClause (Some (del_where args)) of
                  Inl e \<Rightarrow> (Inl e, s)
                | Inr wh \<Rightarrow>
                    if sql wh = []
                    then (Inl (ValidationError
                            ''Invalid parameter: where cannot be empty for delete_rows''), s)
                    else (case do_pool_execute drv s p
                                 (''DELETE FROM '' @ tableRef @ sql wh) (vals wh) of
                            (Inl m, s1) \<Rightarrow> (Inl (DriverError m), s1)
                          | (Inr h, s1) \<Rightarrow> (Inr (affectedRows h), s1)))))"

text \<open>
  The statement of \<^verbatim>\<open>executeSql\<close> on its connection, and the shape of the answer:
  an array is mode \<^verbatim>\<open>query\<close>, a header is mode \<^verbatim>\<open>mutation\<close>.
\<close>

definition run_statement ::
  "driver \<Rightarrow> system \<Rightarrow> connection \<Rightarrow> ExecuteSqlArgs \<Rightarrow> string option
    \<Rightarrow> (error + ExecuteSqlResult) \<times> system"
where
  "run_statement drv s c args db =
     (case do_connection_query drv s c (exe_sql args)
             (case exe_params args of None \<Rightarrow> [] | Some ps \<Rightarrow> ps) of
        (Inl m, s1) \<Rightarrow> (Inl (DriverError m), s1)
      | (Inr (Inl rows), s1) \<Rightarrow>
          (Inr (QueryMode (exe_sql args) db (length rows) rows), s1)
      | (Inr (Inr h), s1) \<Rightarrow>
          (Inr (MutationMode (exe_sql args) db
                  (affectedRows h) (changedRows h) (insertId h)), s1))"

text \<open>
  The body of the \<^verbatim>\<open>try\<close> of \<^verbatim>\<open>executeSql\<close>, on the connection it was given; the
  \<^verbatim>\<open>finally\<close> is in \<open>executeSql\<close>. An empty \<^verbatim>\<open>database\<close> argument is falsy.
\<close>

definition execute_on ::
  "driver \<Rightarrow> system \<Rightarrow> connection \<Rightarrow> ExecuteSqlArgs \<Rightarrow> (error + ExecuteSqlResult) \<times> system"
where
  "execute_on drv s c args =
     (case exe_database args of
        None \<Rightarrow> run_statement drv s c args (session_database s)
      | Some d \<Rightarrow>
          if d = [] then run_statement drv s c args (session_database s)
          else (case assertIdentifier d ''database'' of
                  Inl e \<Rightarrow> (Inl e, s)
                | Inr db \<Rightarrow>
                    (case escapeIdentifier db ''database'' of
                       Inl e \<Rightarrow> (Inl e, s)
                     | Inr q \<Rightarrow>
                         (case do_connection_query drv s c (''USE '' @ q) [] of
                            (Inl m, s1) \<Rightarrow> (Inl (DriverError m), s1)
                          | (Inr u, s1) \<Rightarrow> run_statement drv s1 c args (Some db)))))"

definition executeSql ::
  "driver \<Rightarrow> system \<Rightarrow> ExecuteSqlArgs \<Rightarrow> (error + ExecuteSqlResult) \<times> system"
where
  "executeSql drv s args =
     (case ensureAuthenticated s of
        Inl e \<Rightarrow> (Inl e, s)
      | Inr p \<Rightarrow>
          (case do_getConnection drv s p of
             (Inl m, s1) \<Rightarrow> (Inl (DriverError m), s1)
           | (Inr c, s1) \<Rightarrow>
               (case execute_on drv s1 c args of
                  (r, s2) \<Rightarrow> (r, do_release s2 c))))"

section \<open>Argument validators and tool handlers\<close>

text \<open>Sequencing of steps that may throw.\<close>

definition and_then :: "error + 'a \<Rightarrow> ('a \<Rightarrow> error + 'b) \<Rightarrow> error + 'b" where
  "and_then r f = (case r of Inl e \<Rightarrow> Inl e | Inr x \<Rightarrow> f x)"

text \<open>
  Modelled from the spec: \<^verbatim>\<open>requireString\<close> of \<^verbatim>\<open>validators/common.js\<close>, which is not among
  the sources. The spec has each validator confirm that a required field is present and
  of the expected shape (for a table, a non-empty string) and fail with a validation
  error naming the field; the tests give the text for a missing field.
\<close>

definition requireString :: "jsval \<Rightarrow> string \<Rightarrow> error + string" where
  "requireString v name =
     (case v of
        JUndefined \<Rightarrow> Inl (ValidationError (''Missing required parameter: '' @ name))
      | JStr s \<Rightarrow>
          if s = []
          then Inl (ValidationError (''Invalid parameter: '' @ name @ '' must be a non-empty string''))
          else Inr s
      | _ \<Rightarrow> Inl (ValidationError (''Invalid parameter: '' @ name @ '' must be a non-empty string'')))"

text \<open>
  Modelled from the spec: \<^verbatim>\<open>optionalString\<close> of \<^verbatim>\<open>validators/common.js\<close>, not among the
  sources: an absent field is \<^verbatim>\<open>undefined\<close>, a present one must be a string.
\<close>

definition optionalString :: "jsval \<Rightarrow> string \<Rightarrow> error + string option" where
  "optionalString v name =
     (case v of
        JUndefined \<Rightarrow> Inr None
      | JStr s \<Rightarrow> Inr (Some s)
      | _ \<Rightarrow> Inl (ValidationError (''Invalid parameter: '' @ name @ '' must be a string'')))"

text \<open>
  Modelled from the spec: \<^verbatim>\<open>optionalInteger\<close> of \<^verbatim>\<open>validators/common.js\<close>, not among the
  sources: an absent field is \<^verbatim>\<open>undefined\<close>, a present one must be an integer.
\<close>

definition optionalInteger :: "jsval \<Rightarrow> string \<Rightarrow> error + int option" where
  "optionalInteger v name =
     (case v of
        JUndefined \<Rightarrow> Inr None
      | JNum n \<Rightarrow> Inr (Some n)
      | _ \<Rightarrow> Inl (ValidationError (''Invalid parameter: '' @ name @ '' must be an integer'')))"

text \<open>
  Modelled from the spec: \<^verbatim>\<open>assertStringArray\<close> of \<^verbatim>\<open>validators/common.js\<close>, not among the
  sources: \<^verbatim>\<open>columns\<close>, when present, must be a sequence of strings. The model returns
  the strings.
\<close>

fun string_elements :: "jsval list \<Rightarrow> string list option" where
  "string_elements [] = Some []"
| "string_elements (JStr s # xs) = map_option ((#) s) (string_elements xs)"
| "string_elements (x # xs) = None"

definition assertStringArray :: "jsval \<Rightarrow> string \<Rightarrow> error + string list" where
  "assertStringArray v name =
     (case v of
        JArr xs \<Rightarrow>
          (case string_elements xs of
             Some ss \<Rightarrow> Inr ss
           | None \<Rightarrow>
               Inl (ValidationError (''Invalid parameter: '' @ name @ '' must be an array of strings'')))
      | _ \<Rightarrow> Inl (ValidationError (''Invalid parameter: '' @ name @ '' must be an array of strings'')))"

text \<open>
  Modelled from the spec: \<^verbatim>\<open>requireObject\<close> of \<^verbatim>\<open>validators/common.js\<close>, not among the
  sources: the field must be present and a mapping; the tests give both texts.
\<close>

definition requireObject :: "jsval \<Rightarrow> string \<Rightarrow> error + (string \<times> jsval) list" where
  "requireObject v name =
     (case v of
        JUndefined \<Rightarrow> Inl (ValidationError (''Missing required parameter: '' @ name))
      | JObj entries \<Rightarrow> Inr entries
      | _ \<Rightarrow> Inl (ValidationError (''Invalid parameter: '' @ name @ '' must be an object'')))"

text \<open>
  Modelled from the spec: \<^verbatim>\<open>parseOrderBy\<close> of \<^verbatim>\<open>validators/collections.js\<close>, not among the
  sources. The spec: the expression is \<^verbatim>\<open>column\<close> or \<^verbatim>\<open>column DIRECTION\<close>, the direction
  \<^verbatim>\<open>ASC\<close> or \<^verbatim>\<open>DESC\<close> in any case; it is split on white space and fails with a validation
  error on more than two tokens, on a direction token that is not \<^verbatim>\<open>ASC\<close> or \<^verbatim>\<open>DESC\<close>, and
  on a column that fails identifier validation. The spec does not say what it returns;
  the model returns the expression as given.
\<close>

definition order_by_format :: error where
  "order_by_format = ValidationError
     ''Invalid parameter: orderBy must be in format column or column ASC|DESC''"

definition parseOrderBy :: "string \<Rightarrow> error + string" where
  "parseOrderBy expr =
     (case split_ws expr of
        [column] \<Rightarrow>
          if matches_identifier column then Inr expr else Inl order_by_format
      | [column, direction] \<Rightarrow>
          if toUpperCase direction \<noteq> ''ASC'' \<and> toUpperCase direction \<noteq> ''DESC''
          then Inl order_by_format
          else if matches_identifier column then Inr expr else Inl order_by_format
      | _ \<Rightarrow> Inl order_by_format)"

definition parseWhere :: "jsval \<Rightarrow> string \<Rightarrow> error + (string \<times> jsval) list option" where
  "parseWhere v parameter =
     (if v = JUndefined then Inr None
      else and_then (requireObject v parameter) (\<lambda>wh.
        if length wh = 0
        then Inl (ValidationError
               (''Invalid parameter: '' @ parameter @ '' cannot be an empty object''))
        else Inr (Some wh)))"

definition parseSelectRowsArgs :: "(string \<times> jsval) list \<Rightarrow> error + SelectRowsArgs" where
  "parseSelectRowsArgs args =
     and_then (requireString (js_get args ''table'') ''table'') (\<lambda>table.
     and_then (optionalString (js_get args ''database'') ''database'') (\<lambda>db.
     and_then (if js_get args ''columns'' \<noteq> JUndefined
               then and_then (assertStringArray (js_get args ''columns'') ''columns'')
                      (\<lambda>cs. Inr (Some cs))
               else Inr None) (\<lambda>columns.
     and_then (parseWhere (js_get args ''where'') ''where'') (\<lambda>wh.
     and_then (optionalString (js_get args ''orderBy'') ''orderBy'') (\<lambda>ob.
     and_then (case ob of
                 None \<Rightarrow> Inr None
               | Some expr \<Rightarrow> and_then (parseOrderBy expr) (\<lambda>parsed. Inr (Some parsed)))
       (\<lambda>orderBy.
     and_then (optionalInteger (js_get args ''limit'') ''limit'') (\<lambda>lim.
     and_then (case lim of
                 None \<Rightarrow> Inr None
               | Some l \<Rightarrow>
                   if l < 1
                   then Inl (ValidationError ''Invalid parameter: limit must be greater than 0'')
                   else Inr (Some l)) (\<lambda>limit.
     and_then (optionalInteger (js_get args ''offset'') ''offset'') (\<lambda>off.
     and_then (case off of
                 None \<Rightarrow> Inr None
               | Some k \<Rightarrow>
                   if k < 0
                   then Inl (ValidationError ''Invalid parameter: offset must be 0 or greater'')
                   else Inr (Some k)) (\<lambda>offset.
       Inr \<lparr>sel_table = table, sel_database = db, sel_columns = columns,
            sel_where = wh, sel_orderBy = orderBy, sel_limit = limit,
            sel_offset = offset\<rparr>))))))))))"

definition parseUpdateRowsArgs :: "(string \<times> jsval) list \<Rightarrow> error + UpdateRowsArgs" where
  "parseUpdateRowsArgs args =
     and_then (requireObject (js_get args ''where'') ''where'') (\<lambda>wh.
       if length wh = 0
       then Inl (ValidationError ''Invalid parameter: where cannot be an empty object'')
       else
         and_then (requireString (js_get args ''table'') ''table'') (\<lambda>table.
         and_then (optionalString (js_get args ''database'') ''database'') (\<lambda>db.
         and_then (requireObject (js_get args ''data'') ''data'') (\<lambda>data.
           Inr \<lparr>upd_table = table, upd_database = db, upd_data = data, upd_where = wh\<rparr>))))"

definition parseDeleteRowsArgs :: "(string \<times> jsval) list \<Rightarrow> error + DeleteRowsArgs" where
  "parseDeleteRowsArgs args =
     and_then (requireObject (js_get args ''where'') ''where'') (\<lambda>wh.
       if length wh = 0
       then Inl (ValidationError ''Invalid parameter: where cannot be an empty object'')
       else
         and_then (requireString (js_get args ''table'') ''table'') (\<lambda>table.
         and_then (optionalString (js_get args ''database'') ''database'') (\<lambda>db.
           Inr \<lparr>del_table = table, del_database = db, del_where = wh\<rparr>)))"

text \<open>
  The handlers of \<^verbatim>\<open>createRecordToolHandlers\<close>: the arguments are parsed first, the
  gateway is called with what the parser returns.
\<close>

definition select_rows ::
  "driver \<Rightarrow> system \<Rightarrow> (string \<times> jsval) list \<Rightarrow> (error + SelectRowsResult) \<times> system"
where
  "select_rows drv s args =
     (case parseSelectRowsArgs args of
        Inl e \<Rightarrow> (Inl e, s)
      | Inr parsed \<Rightarrow> selectRows drv s parsed)"

definition update_rows ::
  "driver \<Rightarrow> system \<Rightarrow> (string \<times> jsval) list \<Rightarrow> (error + int) \<times> system"
where
  "update_rows drv s args =
     (case parseUpdateRowsArgs args of
        Inl e \<Rightarrow> (Inl e, s)
      | Inr parsed \<Rightarrow> updateRows drv s parsed)"

definition delete_rows ::
  "driver \<Rightarrow> system \<Rightarrow> (string \<times> jsval) list \<Rightarrow> (error + int) \<times> system"
where
  "delete_rows drv s args =
     (case parseDeleteRowsArgs args of
        Inl e \<Rightarrow> (Inl e, s)
      | Inr parsed \<Rightarrow> deleteRows drv s parsed)"

definition parseInsertRowArgs :: "(string \<times> jsval) list \<Rightarrow> error + InsertRowArgs" where
  "parseInsertRowArgs args =
     and_then (requireString (js_get args ''table'') ''table'') (\<lambda>table.
     and_then (optionalString (js_get args ''database'') ''database'') (\<lambda>db.
     and_then (requireObject (js_get args ''data'') ''data'') (\<lambda>data.
       Inr \<lparr>ins_table = table, ins_database = db, ins_data = data\<rparr>)))"

text \<open>\<^verbatim>\<open>Array.isArray(args.params)\<close> on a present \<^verbatim>\<open>params\<close>.\<close>

definition parseExecuteSqlArgs :: "(string \<times> jsval) list \<Rightarrow> error + ExecuteSqlArgs" where
  "parseExecuteSqlArgs args =
     and_then (requireString (js_get args ''sql'') ''sql'') (\<lambda>statement.
     and_then (optionalString (js_get args ''database'') ''database'') (\<lambda>db.
     and_then (case js_get args ''params'' of
                 JUndefined \<Rightarrow> Inr None
               | JArr ps \<Rightarrow> Inr (Some ps)
               | _ \<Rightarrow> Inl (ValidationError ''Invalid parameter: params must be an array''))
       (\<lambda>params.
       Inr \<lparr>exe_sql = statement, exe_params = params, exe_database = db\<rparr>)))"

definition insert_row ::
  "driver \<Rightarrow> system \<Rightarrow> (string \<times> jsval) list \<Rightarrow> (error + InsertRowResult) \<times> system"
where
  "insert_row drv s args =
     (case parseInsertRowArgs args of
        Inl e \<Rightarrow> (Inl e, s)
      | Inr parsed \<Rightarrow> insertRow drv s parsed)"

definition execute_sql ::
  "driver \<Rightarrow> system \<Rightarrow> (string \<times> jsval) list \<Rightarrow> (error + ExecuteSqlResult) \<times> system"
where
  "execute_sql drv s args =
     (case parseExecuteSqlArgs args of
        Inl e \<Rightarrow> (Inl e, s)
      | Inr parsed \<Rightarrow> executeSql drv s parsed)"


section \<open>Notions the properties are stated with\<close>

text \<open>The text of the validation error of \<open>assertIdentifier\<close> for a field.\<close>

definition identifier_message :: "string \<Rightarrow> string" where
  "identifier_message field =
     ''Invalid parameter: '' @ field @ '' must contain only letters, numbers, and underscore''"

text \<open>
  The WHERE clause as the specification words it: one condition per entry, the key
  quoted, \<^verbatim>\<open>IS NULL\<close> for a null value and a placeholder otherwise, joined by \<^verbatim>\<open>AND\<close>; the
  bound values are the values that are not null, in order.
\<close>

definition where_condition :: "string \<times> jsval \<Rightarrow> string" where
  "where_condition e =
     ''`'' @ fst e @ ''`'' @ (if snd e = JNull then '' IS NULL'' else '' = ?'')"

definition bound_values :: "(string \<times> jsval) list \<Rightarrow> jsval list" where
  "bound_values entries = map snd (filter (\<lambda>e. snd e \<noteq> JNull) entries)"

definition spec_buildWhere :: "(string \<times> jsval) list \<Rightarrow> where_clause" where
  "spec_buildWhere entries =
     \<lparr>sql = '' WHERE '' @ join '' AND '' (map where_condition entries),
      vals = bound_values entries\<rparr>"

definition is_validation :: "error \<Rightarrow> bool" where
  "is_validation e = (case e of ValidationError m \<Rightarrow> True | _ \<Rightarrow> False)"

text \<open>
  The states the gateway can be in: it starts with no pool and no session, and every
  public method takes it from one state to the next, whatever the driver answers.
\<close>

inductive reachable :: "driver \<Rightarrow> system \<Rightarrow> bool" for drv :: driver where
  start: "reachable drv initial"
| after_authMySql: "reachable drv s \<Longrightarrow> reachable drv (snd (authMySql drv s a))"
| after_logout: "reachable drv s \<Longrightarrow> reachable drv (snd (logout drv s))"
| after_health: "reachable drv s \<Longrightarrow> reachable drv (snd (health drv s))"
| after_listDatabases: "reachable drv s \<Longrightarrow> reachable drv (snd (listDatabases drv s))"
| after_listTables: "reachable drv s \<Longrightarrow> reachable drv (snd (listTables drv s db))"
| after_describeTable: "reachable drv s \<Longrightarrow> reachable drv (snd (describeTable drv s d))"
| after_useDatabase: "reachable drv s \<Longrightarrow> reachable drv (snd (useDatabase drv s u))"
| after_selectRows: "reachable drv s \<Longrightarrow> reachable drv (snd (selectRows drv s q))"
| after_insertRow: "reachable drv s \<Longrightarrow> reachable drv (snd (insertRow drv s i))"
| after_updateRows: "reachable drv s \<Longrightarrow> reachable drv (snd (updateRows drv s up))"
| after_deleteRows: "reachable drv s \<Longrightarrow> reachable drv (snd (deleteRows drv s de))"
| after_executeSql: "reachable drv s \<Longrightarrow> reachable drv (snd (executeSql drv s x))"

text \<open>Drivers and states for the concrete instances below.\<close>

definition shop_row :: row where
  "shop_row = [(''name'', JStr ''shop'')]"

text \<open>A server that is up and knows the one schema \<^verbatim>\<open>shop\<close>.\<close>

definition shop_driver :: driver where
  "shop_driver =
     \<lparr>createPool = (\<lambda>cs options. Inr (Pool (length cs))),
      pool_end = (\<lambda>cs p. Inr ()),
      pool_query = (\<lambda>cs p q vs.
         if q = schemata_sql \<and> vs \<noteq> [JStr ''shop''] then Inr [] else Inr [shop_row]),
      pool_execute = (\<lambda>cs p q vs. Inr \<lparr>affectedRows = 1, changedRows = 1, insertId = 7\<rparr>),
      getConnection = (\<lambda>cs p. Inr (Connection (length cs))),
      connection_query = (\<lambda>cs c q vs.
         if q = ''SELECT 1'' then Inr (Inl [shop_row])
         else Inl ''You have an error in your SQL syntax'')\<rparr>"

text \<open>A server that refuses every connection.\<close>

definition down_driver :: driver where
  "down_driver =
     \<lparr>createPool = (\<lambda>cs options. Inr (Pool (length cs))),
      pool_end = (\<lambda>cs p. Inr ()),
      pool_query = (\<lambda>cs p q vs. Inl ''connect ECONNREFUSED''),
      pool_execute = (\<lambda>cs p q vs. Inl ''connect ECONNREFUSED''),
      getConnection = (\<lambda>cs p. Inl ''connect ECONNREFUSED''),
      connection_query = (\<lambda>cs c q vs. Inl ''connect ECONNREFUSED'')\<rparr>"

definition root_session :: AuthSession where
  "root_session =
     \<lparr>host = ''127.0.0.1'', port = 3306, user = ''root'', database = Some ''shop'', ssl = False\<rparr>"

definition logged_in :: system where
  "logged_in = \<lparr>pool = Some (Pool 0), session = Some root_session, calls = []\<rparr>"

definition root_args :: MySqlAuthArgs where
  "root_args =
     \<lparr>auth_host = ''127.0.0.1'', auth_port = None, auth_user = ''root'',
      auth_password = ''secret'', auth_database = Some ''shop'', auth_ssl = None\<rparr>"

text \<open>A server that answers the probe of \<^verbatim>\<open>authMySql\<close> and drops every later query.\<close>

definition dropping_driver :: driver where
  "dropping_driver =
     \<lparr>createPool = (\<lambda>cs options. Inr (Pool (length cs))),
      pool_end = (\<lambda>cs p. Inr ()),
      pool_query = (\<lambda>cs p q vs.
         if q = ''SELECT 1'' then Inr [] else Inl ''Connection lost: The server closed the connection.''),
      pool_execute = (\<lambda>cs p q vs. Inl ''Connection lost: The server closed the connection.''),
      getConnection = (\<lambda>cs p. Inl ''Connection lost: The server closed the connection.''),
      connection_query = (\<lambda>cs c q vs. Inl ''Connection lost: The server closed the connection.'')\<rparr>"

section \<open>Identifiers: what is accepted and what is refused\<close>

lemma ident_char_refused:
  "\<not> ident_char CHR ''`''" "\<not> ident_char CHR '' ''" "\<not> ident_char CHR ''.''"
  by (simp_all add: ident_char_def in_range_def code_unit_def)

lemma ident_start_char: "ident_start c \<Longrightarrow> ident_char c"
  by (auto simp: ident_start_def ident_char_def)

lemma digit_not_start: "in_range CHR ''0'' CHR ''9'' c \<Longrightarrow> \<not> ident_start c"
  by (auto simp: ident_start_def in_range_def code_unit_def)

lemma matches_all_ident_char: "matches_identifier s \<Longrightarrow> list_all ident_char s"
  by (cases s) (auto simp: ident_start_char)

lemma matches_no_delimiter:
  assumes "matches_identifier s"
  shows "CHR ''`'' \<notin> set s" and "CHR '' '' \<notin> set s" and "CHR ''.'' \<notin> set s"
  using matches_all_ident_char[OF assms] ident_char_refused
  by (auto simp: list_all_iff)

lemma assertIdentifier_ok: "matches_identifier v \<Longrightarrow> assertIdentifier v f = Inr v"
  by (simp add: assertIdentifier_def)

lemma assertIdentifier_bad:
  "\<not> matches_identifier v \<Longrightarrow>
   assertIdentifier v f = Inl (ValidationError (identifier_message f))"
  by (simp add: assertIdentifier_def identifier_message_def)

lemma escapeIdentifier_ok:
  "matches_identifier v \<Longrightarrow> escapeIdentifier v f = Inr (''`'' @ v @ ''`'')"
  by (simp add: escapeIdentifier_def assertIdentifier_ok)

lemma escapeIdentifier_bad:
  "\<not> matches_identifier v \<Longrightarrow>
   escapeIdentifier v f = Inl (ValidationError (identifier_message f))"
  by (simp add: escapeIdentifier_def assertIdentifier_bad)

text \<open>
  Claim C1. A string that matches the identifier pattern passes \<open>assertIdentifier\<close>
  unchanged and \<open>escapeIdentifier\<close> returns it between two backticks, for every field
  label. The empty string, a string that contains a backtick, a space or a dot, and a
  string whose first character is a digit are refused by both, with the validation
  error whose message names the field.
\<close>

theorem assertIdentifier_spec:
  "(matches_identifier s \<longrightarrow>
      assertIdentifier s field = Inr s
      \<and> escapeIdentifier s field = Inr (''`'' @ s @ ''`''))
   \<and> ((s = [] \<or> CHR ''`'' \<in> set s \<or> CHR '' '' \<in> set s \<or> CHR ''.'' \<in> set s
        \<or> (\<exists>d rest. s = d # rest \<and> in_range CHR ''0'' CHR ''9'' d)) \<longrightarrow>
      assertIdentifier s field = Inl (ValidationError (identifier_message field))
      \<and> escapeIdentifier s field = Inl (ValidationError (identifier_message field)))"
proof (intro conjI impI)
  assume m: "matches_identifier s"
  show "assertIdentifier s field = Inr s"
    using m by (rule assertIdentifier_ok)
  show "escapeIdentifier s field = Inr (''`'' @ s @ ''`'')"
    using m by (rule escapeIdentifier_ok)
next
  assume bad: "s = [] \<or> CHR ''`'' \<in> set s \<or> CHR '' '' \<in> set s \<or> CHR ''.'' \<in> set s
        \<or> (\<exists>d rest. s = d # rest \<and> in_range CHR ''0'' CHR ''9'' d)"
  have no: "\<not> matches_identifier s"
  proof
    assume m: "matches_identifier s"
    from bad matches_no_delimiter[OF m] m digit_not_start show False by auto
  qed
  show "assertIdentifier s field = Inl (ValidationError (identifier_message field))"
    using no by (rule assertIdentifier_bad)
  show "escapeIdentifier s field = Inl (ValidationError (identifier_message field))"
    using no by (rule escapeIdentifier_bad)
qed

theorem assertIdentifier_spec_witness:
  "assertIdentifier ''order_items2'' ''table'' = Inr ''order_items2''
   \<and> escapeIdentifier ''order_items2'' ''table'' = Inr ''`order_items2`''
   \<and> assertIdentifier ''2fast'' ''table''
       = Inl (ValidationError
           ''Invalid parameter: table must contain only letters, numbers, and underscore'')
   \<and> assertIdentifier ''a.b'' ''table''
       = Inl (ValidationError
           ''Invalid parameter: table must contain only letters, numbers, and underscore'')"
proof -
  have ok: "matches_identifier ''order_items2''"
    by (simp add: ident_start_def ident_char_def in_range_def code_unit_def)
  have digit: "\<exists>d rest. ''2fast'' = d # rest \<and> in_range CHR ''0'' CHR ''9'' d"
    by (simp add: in_range_def code_unit_def)
  have dot: "CHR ''.'' \<in> set ''a.b''" by simp
  from assertIdentifier_spec[of "''order_items2''" "''table''"] ok
  have a: "assertIdentifier ''order_items2'' ''table'' = Inr ''order_items2''
           \<and> escapeIdentifier ''order_items2'' ''table'' = Inr (''`'' @ ''order_items2'' @ ''`'')"
    by blast
  from assertIdentifier_spec[of "''2fast''" "''table''"] digit
  have b: "assertIdentifier ''2fast'' ''table''
             = Inl (ValidationError (identifier_message ''table''))"
    by blast
  from assertIdentifier_spec[of "''a.b''" "''table''"] dot
  have c: "assertIdentifier ''a.b'' ''table''
             = Inl (ValidationError (identifier_message ''table''))"
    by blast
  from a b c show ?thesis by (simp add: identifier_message_def)
qed

section \<open>The WHERE clause against its specification\<close>

lemma where_loop_valid:
  "list_all (\<lambda>e. matches_identifier (fst e)) es \<Longrightarrow>
   where_loop es parts bound
     = Inr (parts @ map where_condition es, bound @ bound_values es)"
proof (induction es arbitrary: parts bound)
  case Nil
  then show ?case by (simp add: bound_values_def)
next
  case (Cons e es)
  obtain k v where e: "e = (k, v)" by (cases e)
  from Cons.prems e have k: "matches_identifier k"
    and rest: "list_all (\<lambda>e. matches_identifier (fst e)) es"
    by simp_all
  show ?case
    using Cons.IH[OF rest] k
    by (simp add: e escapeIdentifier_ok where_condition_def bound_values_def)
qed

lemma where_loop_invalid:
  "\<not> list_all (\<lambda>e. matches_identifier (fst e)) es \<Longrightarrow>
   \<exists>k. k \<in> fst ` set es \<and> \<not> matches_identifier k \<and>
      where_loop es parts bound = Inl (ValidationError (identifier_message (''where.'' @ k)))"
proof (induction es arbitrary: parts bound)
  case Nil
  then show ?case by simp
next
  case (Cons e es)
  obtain k v where e: "e = (k, v)" by (cases e)
  show ?case
  proof (cases "matches_identifier k")
    case True
    with Cons.prems e have "\<not> list_all (\<lambda>e. matches_identifier (fst e)) es" by simp
    from Cons.IH[OF this] True show ?thesis
      by (simp add: e escapeIdentifier_ok) blast
  next
    case False
    then show ?thesis
      by (simp add: e escapeIdentifier_bad) blast
  qed
qed

lemma buildWhereClause_empty:
  "buildWhereClause None = Inr \<lparr>sql = [], vals = []\<rparr>"
  "buildWhereClause (Some []) = Inr \<lparr>sql = [], vals = []\<rparr>"
  by (simp_all add: buildWhereClause_def)

lemma buildWhereClause_valid:
  "es \<noteq> [] \<Longrightarrow> list_all (\<lambda>e. matches_identifier (fst e)) es \<Longrightarrow>
   buildWhereClause (Some es) = Inr (spec_buildWhere es)"
  by (simp add: buildWhereClause_def where_loop_valid spec_buildWhere_def)


lemma spec_buildWhere_sql_nonempty: "sql (spec_buildWhere es) \<noteq> []"
  by (simp add: spec_buildWhere_def)

text \<open>
  Claim C5. \<open>buildWhereClause\<close> on an absent or empty filter returns empty SQL text and
  no bound value. On a filter with entries whose keys are all identifiers it returns
  what the specification words: the conditions in the order of the entries, joined by
  \<^verbatim>\<open>AND\<close> after \<^verbatim>\<open>WHERE\<close>, each key between backticks, \<^verbatim>\<open>IS NULL\<close> for a null value and
  \<^verbatim>\<open>= ?\<close> otherwise, and as bound values exactly the values that are not null, in order.
  Every key goes through identifier validation: a filter with a key that is no
  identifier is refused with the validation error naming that key.
\<close>

theorem buildWhereClause_spec:
  "buildWhereClause None = Inr \<lparr>sql = [], vals = []\<rparr>
   \<and> buildWhereClause (Some []) = Inr \<lparr>sql = [], vals = []\<rparr>
   \<and> (es \<noteq> [] \<and> list_all (\<lambda>e. matches_identifier (fst e)) es \<longrightarrow>
        buildWhereClause (Some es)
          = Inr \<lparr>sql = '' WHERE '' @ join '' AND '' (map where_condition es),
                 vals = map snd (filter (\<lambda>e. snd e \<noteq> JNull) es)\<rparr>)
   \<and> (es \<noteq> [] \<and> \<not> list_all (\<lambda>e. matches_identifier (fst e)) es \<longrightarrow>
        (\<exists>k. k \<in> fst ` set es \<and> \<not> matches_identifier k \<and>
           buildWhereClause (Some es)
             = Inl (ValidationError (identifier_message (''where.'' @ k)))))"
proof (intro conjI impI)
  show "buildWhereClause None = Inr \<lparr>sql = [], vals = []\<rparr>"
    by (rule buildWhereClause_empty)
  show "buildWhereClause (Some []) = Inr \<lparr>sql = [], vals = []\<rparr>"
    by (rule buildWhereClause_empty)
next
  assume a: "es \<noteq> [] \<and> list_all (\<lambda>e. matches_identifier (fst e)) es"
  then show "buildWhereClause (Some es)
          = Inr \<lparr>sql = '' WHERE '' @ join '' AND '' (map where_condition es),
                 vals = map snd (filter (\<lambda>e. snd e \<noteq> JNull) es)\<rparr>"
    by (simp add: buildWhereClause_valid spec_buildWhere_def bound_values_def)
next
  assume a: "es \<noteq> [] \<and> \<not> list_all (\<lambda>e. matches_identifier (fst e)) es"
  then obtain k where k: "k \<in> fst ` set es" "\<not> matches_identifier k"
     "where_loop es [] [] = Inl (ValidationError (identifier_message (''where.'' @ k)))"
    using where_loop_invalid[of es "[]" "[]"] by blast
  from a k(3) have "buildWhereClause (Some es)
             = Inl (ValidationError (identifier_message (''where.'' @ k)))"
    by (simp add: buildWhereClause_def)
  with k(1,2) show "\<exists>k. k \<in> fst ` set es \<and> \<not> matches_identifier k \<and>
           buildWhereClause (Some es)
             = Inl (ValidationError (identifier_message (''where.'' @ k)))"
    by blast
qed

theorem buildWhereClause_spec_witness:
  "buildWhereClause (Some [(''a'', JNum 1), (''b'', JNull)])
     = Inr \<lparr>sql = '' WHERE `a` = ? AND `b` IS NULL'', vals = [JNum 1]\<rparr>"
proof -
  have h: "[(''a'', JNum 1), (''b'', JNull)] \<noteq> []
     \<and> list_all (\<lambda>e. matches_identifier (fst e)) [(''a'', JNum 1), (''b'', JNull)]"
    by (simp add: ident_start_def in_range_def code_unit_def)
  from buildWhereClause_spec[of "[(''a'', JNum 1), (''b'', JNull)]"] h
  have "buildWhereClause (Some [(''a'', JNum 1), (''b'', JNull)])
      = Inr \<lparr>sql = '' WHERE '' @ join '' AND ''
                      (map where_condition [(''a'', JNum 1), (''b'', JNull)]),
             vals = map snd (filter (\<lambda>e. snd e \<noteq> JNull) [(''a'', JNum 1), (''b'', JNull)])\<rparr>"
    by blast
  then show ?thesis
    by (simp add: where_condition_def)
qed

section \<open>The session: what each operation leaves of it\<close>

lemma ensureAuthenticated_none: "pool s = None \<Longrightarrow> ensureAuthenticated s = Inl not_authenticated"
  by (simp add: ensureAuthenticated_def)

lemma ensureAuthenticated_some: "pool s = Some p \<Longrightarrow> ensureAuthenticated s = Inr p"
  by (simp add: ensureAuthenticated_def)

lemmas driver_steps =
  do_createPool_def do_pool_end_def do_pool_query_def do_pool_execute_def
  do_getConnection_def do_connection_query_def do_release_def

lemma listDatabases_frame:
  "pool (snd (listDatabases drv s)) = pool s \<and> session (snd (listDatabases drv s)) = session s"
  by (simp add: listDatabases_def driver_steps split: sum.splits)

lemma listTables_frame:
  "pool (snd (listTables drv s db)) = pool s \<and> session (snd (listTables drv s db)) = session s"
  by (simp add: listTables_def driver_steps split: sum.splits)

lemma describeTable_frame:
  "pool (snd (describeTable drv s a)) = pool s \<and> session (snd (describeTable drv s a)) = session s"
  by (simp add: describeTable_def driver_steps split: sum.splits)

lemma selectRows_frame:
  "pool (snd (selectRows drv s a)) = pool s \<and> session (snd (selectRows drv s a)) = session s"
  by (simp add: selectRows_def driver_steps split: sum.splits prod.splits)

lemma insertRow_frame:
  "pool (snd (insertRow drv s a)) = pool s \<and> session (snd (insertRow drv s a)) = session s"
  by (simp add: insertRow_def driver_steps split: sum.splits)

lemma updateRows_frame:
  "pool (snd (updateRows drv s a)) = pool s \<and> session (snd (updateRows drv s a)) = session s"
  by (simp add: updateRows_def driver_steps split: sum.splits)

lemma deleteRows_frame:
  "pool (snd (deleteRows drv s a)) = pool s \<and> session (snd (deleteRows drv s a)) = session s"
  by (simp add: deleteRows_def driver_steps split: sum.splits)

lemma health_frame:
  "pool (snd (health drv s)) = pool s \<and> session (snd (health drv s)) = session s"
  by (simp add: health_def driver_steps split: sum.splits)

lemma run_statement_frame:
  "pool (snd (run_statement drv s c a db)) = pool s
   \<and> session (snd (run_statement drv s c a db)) = session s"
  by (simp add: run_statement_def driver_steps split: sum.splits)

lemma execute_on_frame:
  "pool (snd (execute_on drv s c a)) = pool s \<and> session (snd (execute_on drv s c a)) = session s"
  by (simp add: execute_on_def run_statement_frame driver_steps split: sum.splits option.splits)

lemma executeSql_frame:
  "pool (snd (executeSql drv s a)) = pool s \<and> session (snd (executeSql drv s a)) = session s"
proof (cases "pool s")
  case None
  then show ?thesis by (simp add: executeSql_def ensureAuthenticated_def)
next
  case (Some p)
  show ?thesis
  proof (cases "getConnection drv (calls s) p")
    case (Inl m)
    with Some show ?thesis by (simp add: executeSql_def ensureAuthenticated_def driver_steps)
  next
    case (Inr c)
    have "pool (snd (execute_on drv (s\<lparr>calls := calls s @ [GetConnection p]\<rparr>) c a)) = pool s"
         "session (snd (execute_on drv (s\<lparr>calls := calls s @ [GetConnection p]\<rparr>) c a)) = session s"
      using execute_on_frame[of drv "s\<lparr>calls := calls s @ [GetConnection p]\<rparr>" c a] by simp_all
    with Some Inr show ?thesis
      by (cases "execute_on drv (s\<lparr>calls := calls s @ [GetConnection p]\<rparr>) c a")
         (simp add: executeSql_def ensureAuthenticated_def driver_steps)
  qed
qed

lemma authMySql_consistent:
  "(pool s = None \<longleftrightarrow> session s = None) \<Longrightarrow>
   (pool (snd (authMySql drv s a)) = None \<longleftrightarrow> session (snd (authMySql drv s a)) = None)"
  by (auto simp: authMySql_def end_current_pool_def auth_failed_def driver_steps Let_def
           split: sum.splits option.splits)

lemma logout_consistent:
  "(pool s = None \<longleftrightarrow> session s = None) \<Longrightarrow>
   (pool (snd (logout drv s)) = None \<longleftrightarrow> session (snd (logout drv s)) = None)"
  by (auto simp: logout_def end_current_pool_def driver_steps split: sum.splits option.splits)

lemma useDatabase_consistent:
  "(pool s = None \<longleftrightarrow> session s = None) \<Longrightarrow>
   (pool (snd (useDatabase drv s a)) = None \<longleftrightarrow> session (snd (useDatabase drv s a)) = None)"
  by (auto simp: useDatabase_def ensureAuthenticated_def driver_steps
           split: sum.splits option.splits)

lemma reachable_consistent:
  "reachable drv s \<Longrightarrow> (pool s = None \<longleftrightarrow> session s = None)"
proof (induction rule: reachable.induct)
  case start
  show ?case by (simp add: initial_def)
next
  case (after_authMySql s a)
  from after_authMySql.IH show ?case by (rule authMySql_consistent)
next
  case (after_logout s)
  from after_logout.IH show ?case by (rule logout_consistent)
next
  case (after_health s)
  then show ?case by (simp add: health_frame)
next
  case (after_listDatabases s)
  then show ?case by (simp add: listDatabases_frame)
next
  case (after_listTables s db)
  then show ?case by (simp add: listTables_frame)
next
  case (after_describeTable s d)
  then show ?case by (simp add: describeTable_frame)
next
  case (after_useDatabase s u)
  from after_useDatabase.IH show ?case by (rule useDatabase_consistent)
next
  case (after_selectRows s q)
  then show ?case by (simp add: selectRows_frame)
next
  case (after_insertRow s i)
  then show ?case by (simp add: insertRow_frame)
next
  case (after_updateRows s up)
  then show ?case by (simp add: updateRows_frame)
next
  case (after_deleteRows s de)
  then show ?case by (simp add: deleteRows_frame)
next
  case (after_executeSql s x)
  then show ?case by (simp add: executeSql_frame)
qed

lemma no_pool_refused:
  assumes "pool s = None"
  shows "listDatabases drv s = (Inl not_authenticated, s)"
    and "listTables drv s db = (Inl not_authenticated, s)"
    and "describeTable drv s d = (Inl not_authenticated, s)"
    and "useDatabase drv s u = (Inl not_authenticated, s)"
    and "selectRows drv s q = (Inl not_authenticated, s)"
    and "insertRow drv s i = (Inl not_authenticated, s)"
    and "updateRows drv s up = (Inl not_authenticated, s)"
    and "deleteRows drv s de = (Inl not_authenticated, s)"
    and "executeSql drv s x = (Inl not_authenticated, s)"
  using assms
  by (simp_all add: listDatabases_def listTables_def describeTable_def useDatabase_def
        selectRows_def insertRow_def updateRows_def deleteRows_def executeSql_def
        ensureAuthenticated_none)

section \<open>A failed authentication\<close>

lemma end_current_pool_frame:
  "end_current_pool drv s = (r, s1) \<Longrightarrow> pool s1 = pool s \<and> session s1 = session s"
  by (auto simp: end_current_pool_def driver_steps split: option.splits)

lemma authMySql_AuthError_clears:
  "fst (authMySql drv s args) = Inl (AuthError m) \<Longrightarrow>
   pool (snd (authMySql drv s args)) = None \<and> session (snd (authMySql drv s args)) = None"
  by (auto simp: authMySql_def auth_failed_def driver_steps Let_def
           split: sum.splits prod.splits)

lemma authMySql_create_throws:
  "end_current_pool drv s = (Inr (), s1) \<Longrightarrow>
   createPool drv (calls s1) (poolOptions args) = Inl cause \<Longrightarrow>
   authMySql drv s args
     = (Inl (AuthError (''MySQL authentication failed: '' @ cause)),
        s1\<lparr>calls := calls s1 @ [CreatePool (poolOptions args)], pool := None, session := None\<rparr>)"
  by (simp add: authMySql_def auth_failed_def driver_steps Let_def)

lemma authMySql_probe_throws:
  "end_current_pool drv s = (Inr (), s1) \<Longrightarrow>
   createPool drv (calls s1) (poolOptions args) = Inr p \<Longrightarrow>
   pool_query drv (calls s1 @ [CreatePool (poolOptions args)]) p ''SELECT 1'' [] = Inl cause \<Longrightarrow>
   authMySql drv s args
     = (Inl (AuthError (''MySQL authentication failed: '' @ cause)),
        s1\<lparr>calls := calls s1 @ [CreatePool (poolOptions args), PoolQuery p ''SELECT 1'' []],
           pool := None, session := None\<rparr>)"
  by (simp add: authMySql_def auth_failed_def driver_steps Let_def)

text \<open>
  Claim C3. When the pool of the previous session, if any, has been closed and then
  either \<^verbatim>\<open>createPool\<close> or the probe \<^verbatim>\<open>SELECT 1\<close> throws, \<^verbatim>\<open>authMySql\<close> fails with the
  authentication error that carries the thrown message, and afterwards there is no pool
  and no session: \<^verbatim>\<open>getAuthStatus\<close> reports \<^verbatim>\<open>authenticated: false\<close> with no session,
  whatever session existed before. The same state holds after every call that fails
  with an authentication error.
\<close>

theorem authMySql_failure:
  "(end_current_pool drv s = (Inr (), s1)
     \<and> (createPool drv (calls s1) (poolOptions args) = Inl cause
        \<or> (\<exists>p. createPool drv (calls s1) (poolOptions args) = Inr p
              \<and> pool_query drv (calls s1 @ [CreatePool (poolOptions args)]) p ''SELECT 1'' []
                  = Inl cause))
    \<longrightarrow> fst (authMySql drv s args)
          = Inl (AuthError (''MySQL authentication failed: '' @ cause))
      \<and> pool (snd (authMySql drv s args)) = None
      \<and> session (snd (authMySql drv s args)) = None
      \<and> getAuthStatus (snd (authMySql drv s args))
          = \<lparr>status_authenticated = False, status_session = None\<rparr>)
   \<and> (fst (authMySql drv s args) = Inl (AuthError m)
    \<longrightarrow> pool (snd (authMySql drv s args)) = None
      \<and> session (snd (authMySql drv s args)) = None
      \<and> getAuthStatus (snd (authMySql drv s args))
          = \<lparr>status_authenticated = False, status_session = None\<rparr>)"
proof (intro conjI impI)
  assume a: "end_current_pool drv s = (Inr (), s1)
     \<and> (createPool drv (calls s1) (poolOptions args) = Inl cause
        \<or> (\<exists>p. createPool drv (calls s1) (poolOptions args) = Inr p
              \<and> pool_query drv (calls s1 @ [CreatePool (poolOptions args)]) p ''SELECT 1'' []
                  = Inl cause))"
  then have e: "end_current_pool drv s = (Inr (), s1)" by simp
  from a consider
      (create) "createPool drv (calls s1) (poolOptions args) = Inl cause"
    | (probe) p where "createPool drv (calls s1) (poolOptions args) = Inr p"
        "pool_query drv (calls s1 @ [CreatePool (poolOptions args)]) p ''SELECT 1'' [] = Inl cause"
    by blast
  then have r: "fst (authMySql drv s args)
          = Inl (AuthError (''MySQL authentication failed: '' @ cause))"
  proof cases
    case create
    from authMySql_create_throws[OF e create] show ?thesis by simp
  next
    case probe
    from authMySql_probe_throws[OF e probe] show ?thesis by simp
  qed
  then show "fst (authMySql drv s args)
          = Inl (AuthError (''MySQL authentication failed: '' @ cause))" .
  from authMySql_AuthError_clears[OF r]
  show "pool (snd (authMySql drv s args)) = None"
    and "session (snd (authMySql drv s args)) = None"
    and "getAuthStatus (snd (authMySql drv s args))
          = \<lparr>status_authenticated = False, status_session = None\<rparr>"
    by (simp_all add: getAuthStatus_def)
next
  assume r: "fst (authMySql drv s args) = Inl (AuthError m)"
  from authMySql_AuthError_clears[OF r]
  show "pool (snd (authMySql drv s args)) = None"
    and "session (snd (authMySql drv s args)) = None"
    and "getAuthStatus (snd (authMySql drv s args))
          = \<lparr>status_authenticated = False, status_session = None\<rparr>"
    by (simp_all add: getAuthStatus_def)
qed

theorem authMySql_failure_witness:
  "session logged_in = Some root_session
   \<and> fst (authMySql down_driver logged_in root_args)
       = Inl (AuthError ''MySQL authentication failed: connect ECONNREFUSED'')
   \<and> pool (snd (authMySql down_driver logged_in root_args)) = None
   \<and> session (snd (authMySql down_driver logged_in root_args)) = None
   \<and> getAuthStatus (snd (authMySql down_driver logged_in root_args))
       = \<lparr>status_authenticated = False, status_session = None\<rparr>"
proof -
  have e: "end_current_pool down_driver logged_in
             = (Inr (), logged_in\<lparr>calls := [PoolEnd (Pool 0)]\<rparr>)"
    by (simp add: end_current_pool_def do_pool_end_def logged_in_def down_driver_def)
  have c: "createPool down_driver (calls (logged_in\<lparr>calls := [PoolEnd (Pool 0)]\<rparr>))
             (poolOptions root_args) = Inr (Pool 1)"
    by (simp add: down_driver_def)
  have q: "pool_query down_driver
             (calls (logged_in\<lparr>calls := [PoolEnd (Pool 0)]\<rparr>) @ [CreatePool (poolOptions root_args)])
             (Pool 1) ''SELECT 1'' [] = Inl ''connect ECONNREFUSED''"
    by (simp add: down_driver_def)
  from authMySql_failure[of down_driver logged_in "logged_in\<lparr>calls := [PoolEnd (Pool 0)]\<rparr>"
         root_args "''connect ECONNREFUSED''"] e c q
  have "fst (authMySql down_driver logged_in root_args)
          = Inl (AuthError (''MySQL authentication failed: '' @ ''connect ECONNREFUSED''))
      \<and> pool (snd (authMySql down_driver logged_in root_args)) = None
      \<and> session (snd (authMySql down_driver logged_in root_args)) = None
      \<and> getAuthStatus (snd (authMySql down_driver logged_in root_args))
          = \<lparr>status_authenticated = False, status_session = None\<rparr>"
    by blast
  then show ?thesis by (simp add: logged_in_def)
qed

section \<open>The health check\<close>

lemma health_no_pool:
  "pool s = None \<Longrightarrow>
   health drv s = (Inr \<lparr>ok = False, health_authenticated = False,
                         message = ''Not authenticated'', serverTime = None\<rparr>, s)"
  by (simp add: health_def)

lemma health_pool:
  "pool s = Some p \<Longrightarrow>
   fst (health drv s)
     = (case pool_query drv (calls s) p ''SELECT NOW() AS serverTime'' [] of
          Inl m \<Rightarrow> Inl (DriverError m)
        | Inr rows \<Rightarrow>
            Inr \<lparr>ok = True, health_authenticated = True,
                 message = ''MySQL connection is healthy'',
                 serverTime = Some (js_String (first_serverTime rows))\<rparr>)"
  by (simp add: health_def ensureAuthenticated_def driver_steps split: sum.splits)

text \<open>
  Claim C10 as first stated does not hold for every answer of the server. A session
  exists after a successful \<^verbatim>\<open>authMySql\<close>; when the server then drops the
  query of \<^verbatim>\<open>health\<close>, the call does not return \<^verbatim>\<open>ok: true\<close>: it throws the driver's
  error.
\<close>

theorem health_counterexample:
  "reachable dropping_driver (snd (authMySql dropping_driver initial root_args))
   \<and> session (snd (authMySql dropping_driver initial root_args)) \<noteq> None
   \<and> fst (health dropping_driver (snd (authMySql dropping_driver initial root_args)))
       = Inl (DriverError ''Connection lost: The server closed the connection.'')"
proof -
  have r: "reachable dropping_driver (snd (authMySql dropping_driver initial root_args))"
    by (rule reachable.after_authMySql[OF reachable.start])
  have s: "snd (authMySql dropping_driver initial root_args)
            = \<lparr>pool = Some (Pool 0),
               session = Some \<lparr>host = ''127.0.0.1'', port = 3306, user = ''root'',
                               database = Some ''shop'', ssl = False\<rparr>,
               calls = [CreatePool (poolOptions root_args), PoolQuery (Pool 0) ''SELECT 1'' []]\<rparr>"
    by (simp add: authMySql_def end_current_pool_def initial_def dropping_driver_def
          driver_steps Let_def poolOptions_def root_args_def)
  have h: "fst (health dropping_driver (snd (authMySql dropping_driver initial root_args)))
       = Inl (DriverError ''Connection lost: The server closed the connection.'')"
    unfolding s by (simp add: health_def ensureAuthenticated_def driver_steps dropping_driver_def)
  from r s h show ?thesis by simp
qed

text \<open>
  Claim C10, amended. Without a session \<^verbatim>\<open>health\<close> throws nothing: it returns
  \<^verbatim>\<open>ok: false\<close>, \<^verbatim>\<open>authenticated: false\<close> and the message \<^verbatim>\<open>Not authenticated\<close> as a value,
  where each of the nine row and schema operations fails with the authentication error.
  With a session it asks the server for its time; it returns \<^verbatim>\<open>ok: true\<close> and
  \<^verbatim>\<open>authenticated: true\<close> when the server answers, and the driver's error is thrown on
  when it does not.
\<close>

theorem health_amended:
  "(reachable drv s \<and> session s = None \<longrightarrow>
      health drv s = (Inr \<lparr>ok = False, health_authenticated = False,
                            message = ''Not authenticated'', serverTime = None\<rparr>, s)
      \<and> fst (listDatabases drv s) = Inl (AuthError ''Not authenticated. Call auth_mysql first.'')
      \<and> fst (listTables drv s db) = Inl (AuthError ''Not authenticated. Call auth_mysql first.'')
      \<and> fst (describeTable drv s d) = Inl (AuthError ''Not authenticated. Call auth_mysql first.'')
      \<and> fst (useDatabase drv s u) = Inl (AuthError ''Not authenticated. Call auth_mysql first.'')
      \<and> fst (selectRows drv s q) = Inl (AuthError ''Not authenticated. Call auth_mysql first.'')
      \<and> fst (insertRow drv s i) = Inl (AuthError ''Not authenticated. Call auth_mysql first.'')
      \<and> fst (updateRows drv s up) = Inl (AuthError ''Not authenticated. Call auth_mysql first.'')
      \<and> fst (deleteRows drv s de) = Inl (AuthError ''Not authenticated. Call auth_mysql first.'')
      \<and> fst (executeSql drv s x) = Inl (AuthError ''Not authenticated. Call auth_mysql first.''))
   \<and> (reachable drv s \<and> session s \<noteq> None \<longrightarrow>
      (\<exists>p. pool s = Some p
         \<and> fst (health drv s)
             = (case pool_query drv (calls s) p ''SELECT NOW() AS serverTime'' [] of
                  Inl m \<Rightarrow> Inl (DriverError m)
                | Inr rows \<Rightarrow>
                    Inr \<lparr>ok = True, health_authenticated = True,
                         message = ''MySQL connection is healthy'',
                         serverTime = Some (js_String (first_serverTime rows))\<rparr>)))"
proof (intro conjI impI)
  assume a: "reachable drv s \<and> session s \<noteq> None"
  then have "pool s \<noteq> None" using reachable_consistent[of drv s] by simp
  then obtain p where p: "pool s = Some p" by auto
  from health_pool[OF p, of drv] p
  show "\<exists>p. pool s = Some p
         \<and> fst (health drv s)
             = (case pool_query drv (calls s) p ''SELECT NOW() AS serverTime'' [] of
                  Inl m \<Rightarrow> Inl (DriverError m)
                | Inr rows \<Rightarrow>
                    Inr \<lparr>ok = True, health_authenticated = True,
                         message = ''MySQL connection is healthy'',
                         serverTime = Some (js_String (first_serverTime rows))\<rparr>)"
    by blast
qed (use reachable_consistent[of drv s] in
      \<open>simp_all add: health_no_pool no_pool_refused not_authenticated_def\<close>)

theorem health_amended_witness:
  "health shop_driver initial
     = (Inr \<lparr>ok = False, health_authenticated = False,
             message = ''Not authenticated'', serverTime = None\<rparr>, initial)
   \<and> session (snd (authMySql shop_driver initial root_args)) \<noteq> None
   \<and> fst (health shop_driver (snd (authMySql shop_driver initial root_args)))
       = Inr \<lparr>ok = True, health_authenticated = True,
              message = ''MySQL connection is healthy'', serverTime = Some []\<rparr>"
proof -
  have r0: "reachable shop_driver initial" by (rule reachable.start)
  have n0: "session initial = None" by (simp add: initial_def)
  from health_amended[of shop_driver initial] r0 n0
  have a: "health shop_driver initial
     = (Inr \<lparr>ok = False, health_authenticated = False,
             message = ''Not authenticated'', serverTime = None\<rparr>, initial)"
    by blast
  have r: "reachable shop_driver (snd (authMySql shop_driver initial root_args))"
    by (rule reachable.after_authMySql[OF reachable.start])
  have s: "snd (authMySql shop_driver initial root_args)
            = \<lparr>pool = Some (Pool 0),
               session = Some \<lparr>host = ''127.0.0.1'', port = 3306, user = ''root'',
                               database = Some ''shop'', ssl = False\<rparr>,
               calls = [CreatePool (poolOptions root_args), PoolQuery (Pool 0) ''SELECT 1'' []]\<rparr>"
    by (simp add: authMySql_def end_current_pool_def initial_def shop_driver_def
          driver_steps Let_def poolOptions_def root_args_def)
  have n: "session (snd (authMySql shop_driver initial root_args)) \<noteq> None"
    by (simp add: s)
  from health_amended[of shop_driver "snd (authMySql shop_driver initial root_args)"] r n
  obtain p where p: "pool (snd (authMySql shop_driver initial root_args)) = Some p"
    and h: "fst (health shop_driver (snd (authMySql shop_driver initial root_args)))
             = (case pool_query shop_driver (calls (snd (authMySql shop_driver initial root_args)))
                      p ''SELECT NOW() AS serverTime'' [] of
                  Inl m \<Rightarrow> Inl (DriverError m)
                | Inr rows \<Rightarrow>
                    Inr \<lparr>ok = True, health_authenticated = True,
                         message = ''MySQL connection is healthy'',
                         serverTime = Some (js_String (first_serverTime rows))\<rparr>)"
    by blast
  have b: "fst (health shop_driver (snd (authMySql shop_driver initial root_args)))
       = Inr \<lparr>ok = True, health_authenticated = True,
              message = ''MySQL connection is healthy'', serverTime = Some []\<rparr>"
    unfolding h
    by (simp add: shop_driver_def schemata_sql_def first_serverTime_def shop_row_def js_get_def)
  from a n b show ?thesis by simp
qed

section \<open>Switching the active database\<close>

lemma useDatabase_failure_frame:
  "fst (useDatabase drv s a) = Inl e \<Longrightarrow>
   session (snd (useDatabase drv s a)) = session s \<and> pool (snd (useDatabase drv s a)) = pool s"
  by (auto simp: useDatabase_def ensureAuthenticated_def driver_steps
           split: sum.splits option.splits if_splits)

lemma useDatabase_not_found:
  "pool s = Some p \<Longrightarrow> matches_identifier db \<Longrightarrow>
   pool_query drv (calls s) p schemata_sql [JStr db] = Inr [] \<Longrightarrow>
   useDatabase drv s \<lparr>use_database = db\<rparr>
     = (Inl (ApiError (''Database not found: '' @ db)),
        s\<lparr>calls := calls s @ [PoolQuery p schemata_sql [JStr db]]\<rparr>)"
  by (simp add: useDatabase_def ensureAuthenticated_def assertIdentifier_ok driver_steps)

lemma useDatabase_success:
  "useDatabase drv s a = (Inr r, s') \<Longrightarrow>
   \<exists>p ss rows. pool s = Some p \<and> session s = Some ss
      \<and> matches_identifier (use_database a)
      \<and> pool_query drv (calls s) p schemata_sql [JStr (use_database a)] = Inr rows
      \<and> rows \<noteq> []
      \<and> session s' = Some (ss\<lparr>database := Some (use_database a)\<rparr>)
      \<and> pool s' = pool s
      \<and> calls s' = calls s @ [PoolQuery p schemata_sql [JStr (use_database a)]]
      \<and> use_result_database r = use_database a"
  by (auto simp: useDatabase_def ensureAuthenticated_def assertIdentifier_def driver_steps
           split: sum.splits option.splits if_splits)

text \<open>
  Claim C8. \<open>useDatabase\<close> never makes a schema the active database that the catalog
  does not know. A call that fails leaves pool and session as they were. With a pool
  and a name that is an identifier, a lookup that returns no row gives the API error
  \<^verbatim>\<open>Database not found\<close>, after exactly that lookup. A call that succeeds has asked the
  catalog for the name and got at least one row; the session's database is then the
  validated name and its host, port, user and TLS flag are unchanged. Whenever the
  session differs after the call, the lookup of the name had returned a row.
\<close>

theorem useDatabase_spec:
  "(fst (useDatabase drv s a) = Inl e \<longrightarrow>
      session (snd (useDatabase drv s a)) = session s
      \<and> pool (snd (useDatabase drv s a)) = pool s)
   \<and> (pool s = Some p \<and> matches_identifier db
       \<and> pool_query drv (calls s) p schemata_sql [JStr db] = Inr [] \<longrightarrow>
      useDatabase drv s \<lparr>use_database = db\<rparr>
        = (Inl (ApiError (''Database not found: '' @ db)),
           s\<lparr>calls := calls s @ [PoolQuery p schemata_sql [JStr db]]\<rparr>))
   \<and> (useDatabase drv s a = (Inr r, s') \<longrightarrow>
      (\<exists>p ss rows. pool s = Some p \<and> session s = Some ss
         \<and> matches_identifier (use_database a)
         \<and> pool_query drv (calls s) p schemata_sql [JStr (use_database a)] = Inr rows
         \<and> rows \<noteq> []
         \<and> calls s' = calls s @ [PoolQuery p schemata_sql [JStr (use_database a)]]
         \<and> session s' = Some (ss\<lparr>database := Some (use_database a)\<rparr>)
         \<and> (\<exists>ss'. session s' = Some ss' \<and> database ss' = Some (use_database a)
               \<and> host ss' = host ss \<and> port ss' = port ss \<and> user ss' = user ss
               \<and> ssl ss' = ssl ss)
         \<and> pool s' = pool s))
   \<and> (session (snd (useDatabase drv s a)) \<noteq> session s \<longrightarrow>
      (\<exists>p rows. pool s = Some p
         \<and> pool_query drv (calls s) p schemata_sql [JStr (use_database a)] = Inr rows
         \<and> rows \<noteq> []
         \<and> session_database (snd (useDatabase drv s a)) = Some (use_database a)))"
proof (intro conjI impI)
  assume "fst (useDatabase drv s a) = Inl e"
  from useDatabase_failure_frame[OF this]
  show "session (snd (useDatabase drv s a)) = session s"
    and "pool (snd (useDatabase drv s a)) = pool s" by simp_all
next
  assume "pool s = Some p \<and> matches_identifier db
       \<and> pool_query drv (calls s) p schemata_sql [JStr db] = Inr []"
  then show "useDatabase drv s \<lparr>use_database = db\<rparr>
        = (Inl (ApiError (''Database not found: '' @ db)),
           s\<lparr>calls := calls s @ [PoolQuery p schemata_sql [JStr db]]\<rparr>)"
    by (simp add: useDatabase_not_found)
next
  assume "useDatabase drv s a = (Inr r, s')"
  from useDatabase_success[OF this]
  show "\<exists>p ss rows. pool s = Some p \<and> session s = Some ss
         \<and> matches_identifier (use_database a)
         \<and> pool_query drv (calls s) p schemata_sql [JStr (use_database a)] = Inr rows
         \<and> rows \<noteq> []
         \<and> calls s' = calls s @ [PoolQuery p schemata_sql [JStr (use_database a)]]
         \<and> session s' = Some (ss\<lparr>database := Some (use_database a)\<rparr>)
         \<and> (\<exists>ss'. session s' = Some ss' \<and> database ss' = Some (use_database a)
               \<and> host ss' = host ss \<and> port ss' = port ss \<and> user ss' = user ss
               \<and> ssl ss' = ssl ss)
         \<and> pool s' = pool s"
    by fastforce
next
  assume ch: "session (snd (useDatabase drv s a)) \<noteq> session s"
  obtain r s' where rs: "useDatabase drv s a = (r, s')" by (cases "useDatabase drv s a")
  show "\<exists>p rows. pool s = Some p
         \<and> pool_query drv (calls s) p schemata_sql [JStr (use_database a)] = Inr rows
         \<and> rows \<noteq> []
         \<and> session_database (snd (useDatabase drv s a)) = Some (use_database a)"
  proof (cases r)
    case (Inl e)
    with rs have "fst (useDatabase drv s a) = Inl e" by simp
    from useDatabase_failure_frame[OF this] ch show ?thesis by simp
  next
    case (Inr res)
    with rs have "useDatabase drv s a = (Inr res, s')" by simp
    from useDatabase_success[OF this] rs show ?thesis
      by (auto simp: session_database_def)
  qed
qed

theorem useDatabase_spec_witness:
  "useDatabase shop_driver logged_in \<lparr>use_database = ''nowhere''\<rparr>
     = (Inl (ApiError ''Database not found: nowhere''),
        logged_in\<lparr>calls := [PoolQuery (Pool 0) schemata_sql [JStr ''nowhere'']]\<rparr>)
   \<and> session_database logged_in = Some ''shop''
   \<and> session_database (logged_in\<lparr>session := Some (root_session\<lparr>database := None\<rparr>)\<rparr>) = None
   \<and> session_database
        (snd (useDatabase shop_driver
                (logged_in\<lparr>session := Some (root_session\<lparr>database := None\<rparr>)\<rparr>)
                \<lparr>use_database = ''shop''\<rparr>)) = Some ''shop''"
proof -
  have h: "pool logged_in = Some (Pool 0) \<and> matches_identifier ''nowhere''
       \<and> pool_query shop_driver (calls logged_in) (Pool 0) schemata_sql [JStr ''nowhere''] = Inr []"
    by (simp add: logged_in_def shop_driver_def ident_start_def ident_char_def in_range_def
          code_unit_def)
  from useDatabase_spec[of shop_driver logged_in _ _ "Pool 0" "''nowhere''"] h
  have a: "useDatabase shop_driver logged_in \<lparr>use_database = ''nowhere''\<rparr>
        = (Inl (ApiError (''Database not found: '' @ ''nowhere'')),
           logged_in\<lparr>calls := calls logged_in @ [PoolQuery (Pool 0) schemata_sql [JStr ''nowhere'']]\<rparr>)"
    by blast
  let ?s = "logged_in\<lparr>session := Some (root_session\<lparr>database := None\<rparr>)\<rparr>"
  have ch: "session (snd (useDatabase shop_driver ?s \<lparr>use_database = ''shop''\<rparr>)) \<noteq> session ?s"
    by (simp add: useDatabase_def ensureAuthenticated_def assertIdentifier_def driver_steps
          logged_in_def shop_driver_def root_session_def shop_row_def
          ident_start_def ident_char_def in_range_def code_unit_def)
  note changed = useDatabase_spec[of shop_driver ?s "\<lparr>use_database = ''shop''\<rparr>",
      THEN conjunct2, THEN conjunct2, THEN conjunct2, THEN mp, OF ch]
  then have b: "session_database (snd (useDatabase shop_driver ?s \<lparr>use_database = ''shop''\<rparr>))
             = Some ''shop''"
    by (elim exE conjE) simp
  from a b show ?thesis
    by (simp add: logged_in_def session_database_def root_session_def)
qed

section \<open>Raw statements on a dedicated connection\<close>

lemma run_statement_calls:
  "\<exists>q vs. calls (snd (run_statement drv s c a db)) = calls s @ [ConnectionQuery c q vs]"
  by (auto simp: run_statement_def driver_steps split: sum.splits)

lemma execute_on_calls:
  "\<exists>mid. calls (snd (execute_on drv s c a)) = calls s @ mid
     \<and> (\<forall>x \<in> set mid. \<exists>q vs. x = ConnectionQuery c q vs)"
proof -
  have plain: "\<exists>mid. calls (snd (run_statement drv s c a db)) = calls s @ mid
     \<and> (\<forall>x \<in> set mid. \<exists>q vs. x = ConnectionQuery c q vs)" for db
  proof -
    from run_statement_calls[of drv s c a db] obtain q vs where
      "calls (snd (run_statement drv s c a db)) = calls s @ [ConnectionQuery c q vs]" by blast
    then show ?thesis by (intro exI[of _ "[ConnectionQuery c q vs]"]) simp
  qed
  have still: "\<exists>mid. calls s = calls s @ mid
     \<and> (\<forall>x \<in> set mid. \<exists>q vs. x = ConnectionQuery c q vs)"
    by (intro exI[of _ "[]"]) simp
  show ?thesis
  proof (cases "exe_database a")
    case None
    with plain show ?thesis by (simp add: execute_on_def)
  next
    case (Some d)
    show ?thesis
    proof (cases "d = []")
      case True
      with Some plain show ?thesis by (simp add: execute_on_def)
    next
      case False
      show ?thesis
      proof (cases "matches_identifier d")
        case no: False
        with Some False still show ?thesis
          by (simp add: execute_on_def assertIdentifier_def)
      next
        case yes: True
        let ?q = "''USE '' @ ''`'' @ d @ ''`''"
        let ?s1 = "s\<lparr>calls := calls s @ [ConnectionQuery c ?q []]\<rparr>"
        show ?thesis
        proof (cases "connection_query drv (calls s) c ?q []")
          case (Inl m)
          with Some False yes
          have "calls (snd (execute_on drv s c a)) = calls s @ [ConnectionQuery c ?q []]"
            by (simp add: execute_on_def assertIdentifier_def escapeIdentifier_def
                  do_connection_query_def)
          then show ?thesis by (intro exI[of _ "[ConnectionQuery c ?q []]"]) simp
        next
          case (Inr u)
          with Some False yes
          have e: "execute_on drv s c a = run_statement drv ?s1 c a (Some d)"
            by (simp add: execute_on_def assertIdentifier_def escapeIdentifier_def
                  do_connection_query_def)
          from run_statement_calls[of drv ?s1 c a "Some d"] obtain q' vs where
            "calls (snd (run_statement drv ?s1 c a (Some d)))
               = calls ?s1 @ [ConnectionQuery c q' vs]" by blast
          with e have "calls (snd (execute_on drv s c a))
               = calls s @ [ConnectionQuery c ?q [], ConnectionQuery c q' vs]" by simp
          then show ?thesis
            by (intro exI[of _ "[ConnectionQuery c ?q [], ConnectionQuery c q' vs]"]) simp
        qed
      qed
    qed
  qed
qed

lemma executeSql_released:
  assumes p: "pool s = Some p" and c: "getConnection drv (calls s) p = Inr c"
  shows "\<exists>mid. calls (snd (executeSql drv s a))
                 = calls s @ [GetConnection p] @ mid @ [Release c]
           \<and> (\<forall>x \<in> set mid. \<exists>q vs. x = ConnectionQuery c q vs)"
proof -
  let ?s1 = "s\<lparr>calls := calls s @ [GetConnection p]\<rparr>"
  obtain r s2 where e: "execute_on drv ?s1 c a = (r, s2)" by (cases "execute_on drv ?s1 c a")
  from execute_on_calls[of drv ?s1 c a] e obtain mid where
    mid: "calls s2 = calls s @ [GetConnection p] @ mid"
      "\<forall>x \<in> set mid. \<exists>q vs. x = ConnectionQuery c q vs"
    by auto
  from p c e have "executeSql drv s a = (r, do_release s2 c)"
    by (simp add: executeSql_def ensureAuthenticated_def do_getConnection_def)
  with mid show ?thesis by (auto simp: do_release_def)
qed

lemma executeSql_no_connection:
  "pool s = Some p \<Longrightarrow> getConnection drv (calls s) p = Inl m \<Longrightarrow>
   executeSql drv s a = (Inl (DriverError m), s\<lparr>calls := calls s @ [GetConnection p]\<rparr>)"
  by (simp add: executeSql_def ensureAuthenticated_def do_getConnection_def)

text \<open>
  Claim C9. \<open>executeSql\<close> leaves the session, and so its active database, and the pool
  as they were, for every argument and every answer of the driver. When the pool hands
  out a connection, everything the call asks of the driver afterwards is a query on
  that connection, and the last thing it does is release it: on success, when the
  database name is refused, when \<^verbatim>\<open>USE\<close> throws and when the statement throws. When no
  connection is handed out there is nothing to release and the driver's error is
  thrown on.
\<close>

theorem executeSql_frame_release:
  "session (snd (executeSql drv s a)) = session s
   \<and> session_database (snd (executeSql drv s a)) = session_database s
   \<and> pool (snd (executeSql drv s a)) = pool s
   \<and> (pool s = Some p \<and> getConnection drv (calls s) p = Inr c \<longrightarrow>
        (\<exists>mid. calls (snd (executeSql drv s a))
                 = calls s @ [GetConnection p] @ mid @ [Release c]
           \<and> (\<forall>x \<in> set mid. \<exists>q vs. x = ConnectionQuery c q vs)))
   \<and> (pool s = Some p \<and> getConnection drv (calls s) p = Inl m \<longrightarrow>
        executeSql drv s a
          = (Inl (DriverError m), s\<lparr>calls := calls s @ [GetConnection p]\<rparr>))"
proof (intro conjI impI)
  show "session (snd (executeSql drv s a)) = session s"
    and "pool (snd (executeSql drv s a)) = pool s"
    by (simp_all add: executeSql_frame)
  then show "session_database (snd (executeSql drv s a)) = session_database s"
    by (simp add: session_database_def)
next
  assume "pool s = Some p \<and> getConnection drv (calls s) p = Inr c"
  then show "\<exists>mid. calls (snd (executeSql drv s a))
                 = calls s @ [GetConnection p] @ mid @ [Release c]
           \<and> (\<forall>x \<in> set mid. \<exists>q vs. x = ConnectionQuery c q vs)"
    using executeSql_released by blast
next
  assume "pool s = Some p \<and> getConnection drv (calls s) p = Inl m"
  then show "executeSql drv s a
          = (Inl (DriverError m), s\<lparr>calls := calls s @ [GetConnection p]\<rparr>)"
    by (simp add: executeSql_no_connection)
qed


theorem executeSql_frame_release_witness:
  "fst (executeSql shop_driver logged_in
          \<lparr>exe_sql = ''SELEC 1'', exe_params = None, exe_database = None\<rparr>)
     = Inl (DriverError ''You have an error in your SQL syntax'')
   \<and> last (calls (snd (executeSql shop_driver logged_in
          \<lparr>exe_sql = ''SELEC 1'', exe_params = None, exe_database = None\<rparr>)))
     = Release (Connection 0)
   \<and> session_database (snd (executeSql shop_driver logged_in
          \<lparr>exe_sql = ''SELEC 1'', exe_params = None, exe_database = None\<rparr>))
     = Some ''shop''"
proof -
  let ?a = "\<lparr>exe_sql = ''SELEC 1'', exe_params = None, exe_database = None\<rparr>"
  have h: "pool logged_in = Some (Pool 0)
           \<and> getConnection shop_driver (calls logged_in) (Pool 0) = Inr (Connection 0)"
    by (simp add: logged_in_def shop_driver_def)
  from executeSql_frame_release[of shop_driver logged_in ?a "Pool 0" "Connection 0"] h
  obtain mid where
    c: "calls (snd (executeSql shop_driver logged_in ?a))
          = calls logged_in @ [GetConnection (Pool 0)] @ mid @ [Release (Connection 0)]"
    and d: "session_database (snd (executeSql shop_driver logged_in ?a))
              = session_database logged_in"
    by blast
  from c have l: "last (calls (snd (executeSql shop_driver logged_in ?a)))
                   = Release (Connection 0)"
    by simp
  have f: "fst (executeSql shop_driver logged_in ?a)
             = Inl (DriverError ''You have an error in your SQL syntax'')"
    by (simp add: executeSql_def ensureAuthenticated_def execute_on_def run_statement_def
          driver_steps logged_in_def shop_driver_def)
  from f l d show ?thesis
    by (simp add: logged_in_def session_database_def root_session_def)
qed

section \<open>Every refusal before the query is a validation error\<close>

lemma is_validation_simps [simp]:
  "is_validation (ValidationError m)"
  "\<not> is_validation (AuthError m)"
  "\<not> is_validation (ApiError m)"
  "\<not> is_validation (DriverError m)"
  by (simp_all add: is_validation_def)

lemma is_validation_msg: "is_validation e \<Longrightarrow> \<exists>m. e = ValidationError m"
  by (cases e) simp_all

lemma escapeIdentifier_validation: "escapeIdentifier v f = Inl e \<Longrightarrow> is_validation e"
  by (auto simp: escapeIdentifier_def assertIdentifier_def split: if_splits)

lemma escape_each_validation: "escape_each label xs = Inl e \<Longrightarrow> is_validation e"
proof (induction xs arbitrary: e)
  case Nil
  then show ?case by simp
next
  case (Cons x xs)
  then show ?case
    by (auto split: sum.splits dest: escapeIdentifier_validation)
qed

lemma escapeTableReference_validation:
  "escapeTableReference s t db = Inl e \<Longrightarrow> is_validation e"
  by (auto simp: escapeTableReference_def no_database_selected_def
           split: sum.splits option.splits if_splits dest: escapeIdentifier_validation)









lemma selectRows_statement_sent:
  "pool s = Some p \<Longrightarrow> select_statement s a = Inr (q, vs) \<Longrightarrow>
   selectRows drv s a
     = (case pool_query drv (calls s) p q vs of
          Inl m \<Rightarrow> Inl (DriverError m)
        | Inr rows \<Rightarrow> Inr \<lparr>items = rows, count = length rows\<rparr>,
        s\<lparr>calls := calls s @ [PoolQuery p q vs]\<rparr>)"
  by (simp add: selectRows_def ensureAuthenticated_def do_pool_query_def split: sum.splits)


section \<open>Pagination\<close>




lemmas evaluate_identifier =
  escapeIdentifier_def assertIdentifier_def ident_start_def ident_char_def in_range_def
  code_unit_def



section \<open>The argument validators\<close>

lemma and_then_Inl:
  "and_then r f = Inl e \<longleftrightarrow> (r = Inl e \<or> (\<exists>x. r = Inr x \<and> f x = Inl e))"
  by (cases r) (simp_all add: and_then_def)

lemma and_then_Inr:
  "and_then r f = Inr y \<longleftrightarrow> (\<exists>x. r = Inr x \<and> f x = Inr y)"
  by (cases r) (simp_all add: and_then_def)

lemma requireString_validation: "requireString v n = Inl e \<Longrightarrow> is_validation e"
  by (cases v) (auto simp: requireString_def split: if_splits)

lemma optionalString_validation: "optionalString v n = Inl e \<Longrightarrow> is_validation e"
  by (cases v) (auto simp: optionalString_def)

lemma optionalInteger_validation: "optionalInteger v n = Inl e \<Longrightarrow> is_validation e"
  by (cases v) (auto simp: optionalInteger_def)

lemma assertStringArray_validation: "assertStringArray v n = Inl e \<Longrightarrow> is_validation e"
  by (cases v) (auto simp: assertStringArray_def split: option.splits)

lemma requireObject_validation: "requireObject v n = Inl e \<Longrightarrow> is_validation e"
  by (cases v) (auto simp: requireObject_def)

lemma parseOrderBy_failure: "parseOrderBy expr = Inl e \<Longrightarrow> e = order_by_format"
  by (auto simp: parseOrderBy_def split: list.splits if_splits)

lemma order_by_format_validation: "is_validation order_by_format"
  by (simp add: order_by_format_def)

lemma parseOrderBy_validation: "parseOrderBy expr = Inl e \<Longrightarrow> is_validation e"
  using parseOrderBy_failure order_by_format_validation by blast

lemma parseWhere_validation: "parseWhere v n = Inl e \<Longrightarrow> is_validation e"
  by (auto simp: parseWhere_def and_then_Inl split: if_splits dest: requireObject_validation)

lemma parseWhere_empty:
  "parseWhere (JObj []) n
     = Inl (ValidationError (''Invalid parameter: '' @ n @ '' cannot be an empty object''))"
  by (simp add: parseWhere_def and_then_def requireObject_def)

lemma parseSelectRowsArgs_validation:
  assumes "parseSelectRowsArgs args = Inl e"
  shows "is_validation e"
  using assms unfolding parseSelectRowsArgs_def and_then_Inl
  by (elim disjE exE conjE)
     (auto split: if_splits option.splits simp: and_then_Inl
        dest: requireString_validation optionalString_validation optionalInteger_validation
              assertStringArray_validation parseWhere_validation parseOrderBy_validation)


lemma parseSelectRowsArgs_empty_where:
  "js_get args ''where'' = JObj [] \<Longrightarrow> \<exists>e. parseSelectRowsArgs args = Inl e"
proof (cases "parseSelectRowsArgs args")
  case (Inl e)
  then show ?thesis by blast
next
  case (Inr parsed)
  assume w: "js_get args ''where'' = JObj []"
  from Inr have "\<exists>wh. parseWhere (js_get args ''where'') ''where'' = Inr wh"
    unfolding parseSelectRowsArgs_def and_then_Inr by blast
  with w show ?thesis by (simp add: parseWhere_empty)
qed


lemma select_rows_refused:
  "parseSelectRowsArgs args = Inl e \<Longrightarrow>
   \<exists>msg. select_rows drv s args = (Inl (ValidationError msg), s)"
  using parseSelectRowsArgs_validation[of args e] is_validation_msg[of e]
  by (auto simp: select_rows_def)

lemma update_rows_empty_where:
  "js_get args ''where'' = JObj [] \<Longrightarrow>
   update_rows drv s args
     = (Inl (ValidationError ''Invalid parameter: where cannot be an empty object''), s)"
  by (simp add: update_rows_def parseUpdateRowsArgs_def and_then_def requireObject_def)

lemma delete_rows_empty_where:
  "js_get args ''where'' = JObj [] \<Longrightarrow>
   delete_rows drv s args
     = (Inl (ValidationError ''Invalid parameter: where cannot be an empty object''), s)"
  by (simp add: delete_rows_def parseDeleteRowsArgs_def and_then_def requireObject_def)

lemma select_rows_empty_where_exact:
  "js_get args ''where'' = JObj [] \<Longrightarrow>
   requireString (js_get args ''table'') ''table'' = Inr t \<Longrightarrow>
   optionalString (js_get args ''database'') ''database'' = Inr d \<Longrightarrow>
   js_get args ''columns'' = JUndefined \<Longrightarrow>
   select_rows drv s args
     = (Inl (ValidationError ''Invalid parameter: where cannot be an empty object''), s)"
  by (simp add: select_rows_def parseSelectRowsArgs_def and_then_def parseWhere_empty)

lemma updateRows_empty_where:
  assumes p: "pool s = Some p" and w: "upd_where u = []"
  shows "\<exists>msg. updateRows drv s u = (Inl (ValidationError msg), s)"
proof -
  have "\<exists>e. updateRows drv s u = (Inl e, s) \<and> is_validation e"
    using p w
    by (auto simp: updateRows_def ensureAuthenticated_def buildWhereClause_def
             split: sum.splits
             dest: escapeTableReference_validation escape_each_validation)
  then show ?thesis using is_validation_msg by blast
qed

lemma deleteRows_empty_where:
  assumes p: "pool s = Some p" and w: "del_where d = []"
  shows "\<exists>msg. deleteRows drv s d = (Inl (ValidationError msg), s)"
proof -
  have "\<exists>e. deleteRows drv s d = (Inl e, s) \<and> is_validation e"
    using p w
    by (auto simp: deleteRows_def ensureAuthenticated_def buildWhereClause_def
             split: sum.splits
             dest: escapeTableReference_validation)
  then show ?thesis using is_validation_msg by blast
qed

lemma select_statement_empty_filter:
  "select_statement s (a\<lparr>sel_where := Some []\<rparr>) = select_statement s (a\<lparr>sel_where := None\<rparr>)"
  by (simp add: select_statement_def buildWhereClause_def split: sum.splits)

lemma select_rows_unfiltered:
  assumes p: "pool s = Some p" and t: "matches_identifier t" and d: "matches_identifier d"
    and rows: "pool_query drv (calls s) p (''SELECT * FROM `'' @ d @ ''`.`'' @ t @ ''`'') [] = Inr rows"
  shows "select_rows drv s [(''table'', JStr t), (''database'', JStr d)]
     = (Inr \<lparr>items = rows, count = length rows\<rparr>,
        s\<lparr>calls := calls s @ [PoolQuery p (''SELECT * FROM `'' @ d @ ''`.`'' @ t @ ''`'') []]\<rparr>)"
proof -
  from t d have t0: "t \<noteq> []" and d0: "d \<noteq> []" by auto
  have parsed: "parseSelectRowsArgs [(''table'', JStr t), (''database'', JStr d)]
      = Inr \<lparr>sel_table = t, sel_database = Some d, sel_columns = None, sel_where = None,
              sel_orderBy = None, sel_limit = None, sel_offset = None\<rparr>"
    using t0
    by (simp add: parseSelectRowsArgs_def and_then_def js_get_def requireString_def
          optionalString_def optionalInteger_def parseWhere_def)
  have st: "select_statement s
       \<lparr>sel_table = t, sel_database = Some d, sel_columns = None, sel_where = None,
        sel_orderBy = None, sel_limit = None, sel_offset = None\<rparr>
      = Inr (''SELECT * FROM `'' @ d @ ''`.`'' @ t @ ''`'', [])"
    using t d d0
    by (simp add: select_statement_def escapeTableReference_def escapeIdentifier_ok nullish_def
          select_columns_def buildWhereClause_def order_by_sql_def limit_offset_def)
  from selectRows_statement_sent[OF p st, of drv] rows parsed
  show ?thesis by (simp add: select_rows_def)
qed

section \<open>Empty filters\<close>

text \<open>
  Claim C2 as first stated does not hold for \<^verbatim>\<open>select_rows\<close>. With a session and an
  active database, the tool \<^verbatim>\<open>select_rows\<close> called with the empty
  object as \<^verbatim>\<open>where\<close> does not select: \<^verbatim>\<open>parseWhere\<close> refuses the empty object.
\<close>

theorem empty_where_counterexample:
  "select_rows shop_driver logged_in [(''table'', JStr ''orders''), (''where'', JObj [])]
     = (Inl (ValidationError ''Invalid parameter: where cannot be an empty object''), logged_in)"
  by (simp add: select_rows_def parseSelectRowsArgs_def and_then_def js_get_def
        requireString_def optionalString_def parseWhere_empty)

text \<open>
  Claim C2, amended. The tools \<^verbatim>\<open>update_rows\<close> and \<^verbatim>\<open>delete_rows\<close> fail with a validation
  error whenever \<^verbatim>\<open>where\<close> is the empty object, in every state and for every table and
  database; so does \<^verbatim>\<open>select_rows\<close>, with the same message once table, database and
  columns have the right shape. In the gateway itself \<^verbatim>\<open>updateRows\<close> and \<^verbatim>\<open>deleteRows\<close>
  with an empty filter and a pool fail with a validation error, and \<^verbatim>\<open>selectRows\<close>
  builds the same statement for an empty filter as for none. A \<^verbatim>\<open>select_rows\<close> call
  with no \<^verbatim>\<open>where\<close> is the unfiltered select: the statement has no \<^verbatim>\<open>WHERE\<close> clause
  and no bound value, and the rows of the driver are returned.
\<close>

theorem empty_where_refused:
  "(js_get args ''where'' = JObj [] \<longrightarrow>
      update_rows drv s args
        = (Inl (ValidationError ''Invalid parameter: where cannot be an empty object''), s)
      \<and> delete_rows drv s args
        = (Inl (ValidationError ''Invalid parameter: where cannot be an empty object''), s)
      \<and> (\<exists>msg. select_rows drv s args = (Inl (ValidationError msg), s)))
   \<and> (js_get args ''where'' = JObj []
       \<and> requireString (js_get args ''table'') ''table'' = Inr tb
       \<and> optionalString (js_get args ''database'') ''database'' = Inr db
       \<and> js_get args ''columns'' = JUndefined \<longrightarrow>
      select_rows drv s args
        = (Inl (ValidationError ''Invalid parameter: where cannot be an empty object''), s))
   \<and> (pool s \<noteq> None \<and> upd_where u = [] \<longrightarrow>
      (\<exists>msg. updateRows drv s u = (Inl (ValidationError msg), s)))
   \<and> (pool s \<noteq> None \<and> del_where de = [] \<longrightarrow>
      (\<exists>msg. deleteRows drv s de = (Inl (ValidationError msg), s)))
   \<and> select_statement s (a\<lparr>sel_where := Some []\<rparr>) = select_statement s (a\<lparr>sel_where := None\<rparr>)
   \<and> (pool s = Some p \<and> matches_identifier t \<and> matches_identifier d
       \<and> pool_query drv (calls s) p (''SELECT * FROM `'' @ d @ ''`.`'' @ t @ ''`'') [] = Inr rows
      \<longrightarrow> select_rows drv s [(''table'', JStr t), (''database'', JStr d)]
           = (Inr \<lparr>items = rows, count = length rows\<rparr>,
              s\<lparr>calls := calls s
                   @ [PoolQuery p (''SELECT * FROM `'' @ d @ ''`.`'' @ t @ ''`'') []]\<rparr>))"
proof (intro conjI impI)
  assume w: "js_get args ''where'' = JObj []"
  show "update_rows drv s args
        = (Inl (ValidationError ''Invalid parameter: where cannot be an empty object''), s)"
    using w by (rule update_rows_empty_where)
  show "delete_rows drv s args
        = (Inl (ValidationError ''Invalid parameter: where cannot be an empty object''), s)"
    using w by (rule delete_rows_empty_where)
  from parseSelectRowsArgs_empty_where[OF w] obtain e where "parseSelectRowsArgs args = Inl e"
    by blast
  then show "\<exists>msg. select_rows drv s args = (Inl (ValidationError msg), s)"
    by (rule select_rows_refused)
next
  assume "js_get args ''where'' = JObj []
       \<and> requireString (js_get args ''table'') ''table'' = Inr tb
       \<and> optionalString (js_get args ''database'') ''database'' = Inr db
       \<and> js_get args ''columns'' = JUndefined"
  then show "select_rows drv s args
        = (Inl (ValidationError ''Invalid parameter: where cannot be an empty object''), s)"
    using select_rows_empty_where_exact by blast
next
  assume "pool s \<noteq> None \<and> upd_where u = []"
  then show "\<exists>msg. updateRows drv s u = (Inl (ValidationError msg), s)"
    using updateRows_empty_where by blast
next
  assume "pool s \<noteq> None \<and> del_where de = []"
  then show "\<exists>msg. deleteRows drv s de = (Inl (ValidationError msg), s)"
    using deleteRows_empty_where by blast
next
  show "select_statement s (a\<lparr>sel_where := Some []\<rparr>)
          = select_statement s (a\<lparr>sel_where := None\<rparr>)"
    by (rule select_statement_empty_filter)
next
  assume "pool s = Some p \<and> matches_identifier t \<and> matches_identifier d
       \<and> pool_query drv (calls s) p (''SELECT * FROM `'' @ d @ ''`.`'' @ t @ ''`'') [] = Inr rows"
  then show "select_rows drv s [(''table'', JStr t), (''database'', JStr d)]
           = (Inr \<lparr>items = rows, count = length rows\<rparr>,
              s\<lparr>calls := calls s
                   @ [PoolQuery p (''SELECT * FROM `'' @ d @ ''`.`'' @ t @ ''`'') []]\<rparr>)"
    using select_rows_unfiltered by blast
qed

theorem empty_where_refused_witness:
  "update_rows shop_driver logged_in
      [(''table'', JStr ''orders''), (''data'', JObj [(''paid'', JBool True)]), (''where'', JObj [])]
     = (Inl (ValidationError ''Invalid parameter: where cannot be an empty object''), logged_in)
   \<and> delete_rows shop_driver logged_in
      [(''table'', JStr ''orders''), (''data'', JObj [(''paid'', JBool True)]), (''where'', JObj [])]
     = (Inl (ValidationError ''Invalid parameter: where cannot be an empty object''), logged_in)
   \<and> select_rows shop_driver logged_in
      [(''table'', JStr ''orders''), (''data'', JObj [(''paid'', JBool True)]), (''where'', JObj [])]
     = (Inl (ValidationError ''Invalid parameter: where cannot be an empty object''), logged_in)
   \<and> select_rows shop_driver logged_in [(''table'', JStr ''orders''), (''database'', JStr ''shop'')]
     = (Inr \<lparr>items = [shop_row], count = 1\<rparr>,
        logged_in\<lparr>calls := [PoolQuery (Pool 0) ''SELECT * FROM `shop`.`orders`'' []]\<rparr>)"
proof -
  let ?args = "[(''table'', JStr ''orders''), (''data'', JObj [(''paid'', JBool True)]),
                (''where'', JObj [])]"
  have w: "js_get ?args ''where'' = JObj []
       \<and> requireString (js_get ?args ''table'') ''table'' = Inr ''orders''
       \<and> optionalString (js_get ?args ''database'') ''database'' = Inr None
       \<and> js_get ?args ''columns'' = JUndefined"
    by (simp add: js_get_def requireString_def optionalString_def)
  have q: "pool logged_in = Some (Pool 0) \<and> matches_identifier ''orders''
       \<and> matches_identifier ''shop''
       \<and> pool_query shop_driver (calls logged_in) (Pool 0)
            (''SELECT * FROM `'' @ ''shop'' @ ''`.`'' @ ''orders'' @ ''`'') [] = Inr [shop_row]"
    by (simp add: logged_in_def shop_driver_def schemata_sql_def ident_start_def ident_char_def
          in_range_def code_unit_def)
  note all = empty_where_refused[where args = ?args and drv = shop_driver and s = logged_in
      and tb = "''orders''" and db = None and p = "Pool 0" and t = "''orders''"
      and d = "''shop''" and rows = "[shop_row]"]
  from all w have one: "update_rows shop_driver logged_in ?args
        = (Inl (ValidationError ''Invalid parameter: where cannot be an empty object''), logged_in)
      \<and> delete_rows shop_driver logged_in ?args
        = (Inl (ValidationError ''Invalid parameter: where cannot be an empty object''), logged_in)
      \<and> select_rows shop_driver logged_in ?args
        = (Inl (ValidationError ''Invalid parameter: where cannot be an empty object''), logged_in)"
    by blast
  from all q have two:
    "select_rows shop_driver logged_in [(''table'', JStr ''orders''), (''database'', JStr ''shop'')]
           = (Inr \<lparr>items = [shop_row], count = length [shop_row]\<rparr>,
              logged_in\<lparr>calls := calls logged_in
                   @ [PoolQuery (Pool 0)
                        (''SELECT * FROM `'' @ ''shop'' @ ''`.`'' @ ''orders'' @ ''`'') []]\<rparr>)"
    by blast
  from one two show ?thesis by (simp add: logged_in_def)
qed

section \<open>Ordering\<close>



lemma split_ws_nonempty: "split_ws s \<noteq> []"
proof -
  have "split_from cur s \<noteq> []" for cur
    by (induction cur s rule: split_from.induct) simp_all
  then show ?thesis by (simp add: split_ws_def)
qed















lemma order_by_sql_bad_column:
  "e \<noteq> [] \<Longrightarrow> split_ws e = c # rest \<Longrightarrow> \<not> matches_identifier c \<Longrightarrow>
   order_by_sql (Some e) = Inl (ValidationError (identifier_message ''orderBy''))"
  by (simp add: order_by_sql_def escapeIdentifier_bad)











section \<open>Operations without a session\<close>

lemma parseUpdateRowsArgs_validation:
  assumes "parseUpdateRowsArgs args = Inl e"
  shows "is_validation e"
  using assms unfolding parseUpdateRowsArgs_def and_then_Inl
  by (auto split: if_splits simp: and_then_Inl
        dest: requireString_validation optionalString_validation requireObject_validation)

lemma parseDeleteRowsArgs_validation:
  assumes "parseDeleteRowsArgs args = Inl e"
  shows "is_validation e"
  using assms unfolding parseDeleteRowsArgs_def and_then_Inl
  by (auto split: if_splits simp: and_then_Inl
        dest: requireString_validation optionalString_validation requireObject_validation)

lemma parseInsertRowArgs_validation:
  assumes "parseInsertRowArgs args = Inl e"
  shows "is_validation e"
  using assms unfolding parseInsertRowArgs_def and_then_Inl
  by (auto dest: requireString_validation optionalString_validation requireObject_validation)

lemma parseExecuteSqlArgs_validation:
  assumes "parseExecuteSqlArgs args = Inl e"
  shows "is_validation e"
  using assms unfolding parseExecuteSqlArgs_def and_then_Inl
  by (auto split: jsval.splits dest: requireString_validation optionalString_validation)

text \<open>
  Claim C4 as first stated does not hold for the tools. The handlers of
  \<^verbatim>\<open>createRecordToolHandlers\<close> parse the arguments before they call the gateway, so
  before any authentication \<^verbatim>\<open>update_rows\<close> with the empty object as \<^verbatim>\<open>where\<close> and
  \<^verbatim>\<open>select_rows\<close> with the limit 0 fail with the validator's error, not with the
  authentication error.
\<close>

theorem no_session_counterexample:
  "reachable shop_driver initial
   \<and> session initial = None
   \<and> update_rows shop_driver initial
        [(''table'', JStr ''users''), (''data'', JObj [(''email'', JStr ''x'')]),
         (''where'', JObj [])]
      = (Inl (ValidationError ''Invalid parameter: where cannot be an empty object''), initial)
   \<and> select_rows shop_driver initial [(''table'', JStr ''users''), (''limit'', JNum 0)]
      = (Inl (ValidationError ''Invalid parameter: limit must be greater than 0''), initial)"
proof -
  have r: "reachable shop_driver initial" by (rule reachable.start)
  have n: "session initial = None" by (simp add: initial_def)
  have u: "update_rows shop_driver initial
        [(''table'', JStr ''users''), (''data'', JObj [(''email'', JStr ''x'')]),
         (''where'', JObj [])]
      = (Inl (ValidationError ''Invalid parameter: where cannot be an empty object''), initial)"
    by (simp add: update_rows_def parseUpdateRowsArgs_def and_then_def js_get_def
          requireObject_def)
  have q: "select_rows shop_driver initial [(''table'', JStr ''users''), (''limit'', JNum 0)]
      = (Inl (ValidationError ''Invalid parameter: limit must be greater than 0''), initial)"
    by (simp add: select_rows_def parseSelectRowsArgs_def and_then_def js_get_def
          requireString_def optionalString_def optionalInteger_def parseWhere_def)
  from r n u q show ?thesis by simp
qed

text \<open>
  Claim C4, amended. In every state the gateway can reach in which no session exists,
  each of the nine row and schema methods of \<^verbatim>\<open>MySqlApi\<close> fails with the authentication
  error of \<^verbatim>\<open>ensureAuthenticated\<close>, whatever its arguments, before any call to the driver
  and without a change of state. Each of the five record tools \<^verbatim>\<open>select_rows\<close>,
  \<^verbatim>\<open>insert_row\<close>, \<^verbatim>\<open>update_rows\<close>, \<^verbatim>\<open>delete_rows\<close> and \<^verbatim>\<open>execute_sql\<close> fails with that
  authentication error when its validator accepts the arguments, and with the
  validator's own error, a validation error, when it refuses them; the state is
  unchanged either way.
\<close>

theorem no_session_operations:
  "reachable drv s \<and> session s = None \<longrightarrow>
     listDatabases drv s = (Inl (AuthError ''Not authenticated. Call auth_mysql first.''), s)
   \<and> listTables drv s db = (Inl (AuthError ''Not authenticated. Call auth_mysql first.''), s)
   \<and> describeTable drv s d = (Inl (AuthError ''Not authenticated. Call auth_mysql first.''), s)
   \<and> useDatabase drv s u = (Inl (AuthError ''Not authenticated. Call auth_mysql first.''), s)
   \<and> selectRows drv s q = (Inl (AuthError ''Not authenticated. Call auth_mysql first.''), s)
   \<and> insertRow drv s i = (Inl (AuthError ''Not authenticated. Call auth_mysql first.''), s)
   \<and> updateRows drv s up = (Inl (AuthError ''Not authenticated. Call auth_mysql first.''), s)
   \<and> deleteRows drv s de = (Inl (AuthError ''Not authenticated. Call auth_mysql first.''), s)
   \<and> executeSql drv s x = (Inl (AuthError ''Not authenticated. Call auth_mysql first.''), s)
   \<and> (\<forall>parsed. parseSelectRowsArgs args = Inr parsed \<longrightarrow>
          select_rows drv s args
            = (Inl (AuthError ''Not authenticated. Call auth_mysql first.''), s))
   \<and> (\<forall>e. parseSelectRowsArgs args = Inl e \<longrightarrow>
          (\<exists>m. e = ValidationError m) \<and> select_rows drv s args = (Inl e, s))
   \<and> (\<forall>parsed. parseInsertRowArgs args = Inr parsed \<longrightarrow>
          insert_row drv s args
            = (Inl (AuthError ''Not authenticated. Call auth_mysql first.''), s))
   \<and> (\<forall>e. parseInsertRowArgs args = Inl e \<longrightarrow>
          (\<exists>m. e = ValidationError m) \<and> insert_row drv s args = (Inl e, s))
   \<and> (\<forall>parsed. parseUpdateRowsArgs args = Inr parsed \<longrightarrow>
          update_rows drv s args
            = (Inl (AuthError ''Not authenticated. Call auth_mysql first.''), s))
   \<and> (\<forall>e. parseUpdateRowsArgs args = Inl e \<longrightarrow>
          (\<exists>m. e = ValidationError m) \<and> update_rows drv s args = (Inl e, s))
   \<and> (\<forall>parsed. parseDeleteRowsArgs args = Inr parsed \<longrightarrow>
          delete_rows drv s args
            = (Inl (AuthError ''Not authenticated. Call auth_mysql first.''), s))
   \<and> (\<forall>e. parseDeleteRowsArgs args = Inl e \<longrightarrow>
          (\<exists>m. e = ValidationError m) \<and> delete_rows drv s args = (Inl e, s))
   \<and> (\<forall>parsed. parseExecuteSqlArgs args = Inr parsed \<longrightarrow>
          execute_sql drv s args
            = (Inl (AuthError ''Not authenticated. Call auth_mysql first.''), s))
   \<and> (\<forall>e. parseExecuteSqlArgs args = Inl e \<longrightarrow>
          (\<exists>m. e = ValidationError m) \<and> execute_sql drv s args = (Inl e, s))"
proof
  assume a: "reachable drv s \<and> session s = None"
  then have p: "pool s = None" using reachable_consistent[of drv s] by simp
  note gateway = no_pool_refused[OF p, unfolded not_authenticated_def]
  have sel: "\<forall>parsed. parseSelectRowsArgs args = Inr parsed \<longrightarrow>
          select_rows drv s args
            = (Inl (AuthError ''Not authenticated. Call auth_mysql first.''), s)"
    by (simp add: select_rows_def gateway)
  have sel': "\<forall>e. parseSelectRowsArgs args = Inl e \<longrightarrow>
          (\<exists>m. e = ValidationError m) \<and> select_rows drv s args = (Inl e, s)"
    using parseSelectRowsArgs_validation[of args] is_validation_msg
    by (auto simp: select_rows_def)
  have ins: "\<forall>parsed. parseInsertRowArgs args = Inr parsed \<longrightarrow>
          insert_row drv s args
            = (Inl (AuthError ''Not authenticated. Call auth_mysql first.''), s)"
    by (simp add: insert_row_def gateway)
  have ins': "\<forall>e. parseInsertRowArgs args = Inl e \<longrightarrow>
          (\<exists>m. e = ValidationError m) \<and> insert_row drv s args = (Inl e, s)"
    using parseInsertRowArgs_validation[of args] is_validation_msg
    by (auto simp: insert_row_def)
  have upd: "\<forall>parsed. parseUpdateRowsArgs args = Inr parsed \<longrightarrow>
          update_rows drv s args
            = (Inl (AuthError ''Not authenticated. Call auth_mysql first.''), s)"
    by (simp add: update_rows_def gateway)
  have upd': "\<forall>e. parseUpdateRowsArgs args = Inl e \<longrightarrow>
          (\<exists>m. e = ValidationError m) \<and> update_rows drv s args = (Inl e, s)"
    using parseUpdateRowsArgs_validation[of args] is_validation_msg
    by (auto simp: update_rows_def)
  have del: "\<forall>parsed. parseDeleteRowsArgs args = Inr parsed \<longrightarrow>
          delete_rows drv s args
            = (Inl (AuthError ''Not authenticated. Call auth_mysql first.''), s)"
    by (simp add: delete_rows_def gateway)
  have del': "\<forall>e. parseDeleteRowsArgs args = Inl e \<longrightarrow>
          (\<exists>m. e = ValidationError m) \<and> delete_rows drv s args = (Inl e, s)"
    using parseDeleteRowsArgs_validation[of args] is_validation_msg
    by (auto simp: delete_rows_def)
  have exe: "\<forall>parsed. parseExecuteSqlArgs args = Inr parsed \<longrightarrow>
          execute_sql drv s args
            = (Inl (AuthError ''Not authenticated. Call auth_mysql first.''), s)"
    by (simp add: execute_sql_def gateway)
  have exe': "\<forall>e. parseExecuteSqlArgs args = Inl e \<longrightarrow>
          (\<exists>m. e = ValidationError m) \<and> execute_sql drv s args = (Inl e, s)"
    using parseExecuteSqlArgs_validation[of args] is_validation_msg
    by (auto simp: execute_sql_def)
  from gateway sel sel' ins ins' upd upd' del del' exe exe'
  show "listDatabases drv s = (Inl (AuthError ''Not authenticated. Call auth_mysql first.''), s)
   \<and> listTables drv s db = (Inl (AuthError ''Not authenticated. Call auth_mysql first.''), s)
   \<and> describeTable drv s d = (Inl (AuthError ''Not authenticated. Call auth_mysql first.''), s)
   \<and> useDatabase drv s u = (Inl (AuthError ''Not authenticated. Call auth_mysql first.''), s)
   \<and> selectRows drv s q = (Inl (AuthError ''Not authenticated. Call auth_mysql first.''), s)
   \<and> insertRow drv s i = (Inl (AuthError ''Not authenticated. Call auth_mysql first.''), s)
   \<and> updateRows drv s up = (Inl (AuthError ''Not authenticated. Call auth_mysql first.''), s)
   \<and> deleteRows drv s de = (Inl (AuthError ''Not authenticated. Call auth_mysql first.''), s)
   \<and> executeSql drv s x = (Inl (AuthError ''Not authenticated. Call auth_mysql first.''), s)
   \<and> (\<forall>parsed. parseSelectRowsArgs args = Inr parsed \<longrightarrow>
          select_rows drv s args
            = (Inl (AuthError ''Not authenticated. Call auth_mysql first.''), s))
   \<and> (\<forall>e. parseSelectRowsArgs args = Inl e \<longrightarrow>
          (\<exists>m. e = ValidationError m) \<and> select_rows drv s args = (Inl e, s))
   \<and> (\<forall>parsed. parseInsertRowArgs args = Inr parsed \<longrightarrow>
          insert_row drv s args
            = (Inl (AuthError ''Not authenticated. Call auth_mysql first.''), s))
   \<and> (\<forall>e. parseInsertRowArgs args = Inl e \<longrightarrow>
          (\<exists>m. e = ValidationError m) \<and> insert_row drv s args = (Inl e, s))
   \<and> (\<forall>parsed. parseUpdateRowsArgs args = Inr parsed \<longrightarrow>
          update_rows drv s args
            = (Inl (AuthError ''Not authenticated. Call auth_mysql first.''), s))
   \<and> (\<forall>e. parseUpdateRowsArgs args = Inl e \<longrightarrow>
          (\<exists>m. e = ValidationError m) \<and> update_rows drv s args = (Inl e, s))
   \<and> (\<forall>parsed. parseDeleteRowsArgs args = Inr parsed \<longrightarrow>
          delete_rows drv s args
            = (Inl (AuthError ''Not authenticated. Call auth_mysql first.''), s))
   \<and> (\<forall>e. parseDeleteRowsArgs args = Inl e \<longrightarrow>
          (\<exists>m. e = ValidationError m) \<and> delete_rows drv s args = (Inl e, s))
   \<and> (\<forall>parsed. parseExecuteSqlArgs args = Inr parsed \<longrightarrow>
          execute_sql drv s args
            = (Inl (AuthError ''Not authenticated. Call auth_mysql first.''), s))
   \<and> (\<forall>e. parseExecuteSqlArgs args = Inl e \<longrightarrow>
          (\<exists>m. e = ValidationError m) \<and> execute_sql drv s args = (Inl e, s))"
    by (intro conjI) assumption+
qed

theorem no_session_operations_witness:
  "listDatabases shop_driver initial
       = (Inl (AuthError ''Not authenticated. Call auth_mysql first.''), initial)
   \<and> useDatabase shop_driver initial \<lparr>use_database = ''shop''\<rparr>
       = (Inl (AuthError ''Not authenticated. Call auth_mysql first.''), initial)
   \<and> executeSql shop_driver initial
         \<lparr>exe_sql = ''SELECT 1'', exe_params = None, exe_database = Some ''shop''\<rparr>
       = (Inl (AuthError ''Not authenticated. Call auth_mysql first.''), initial)
   \<and> select_rows shop_driver initial [(''table'', JStr ''users''), (''limit'', JNum 10)]
       = (Inl (AuthError ''Not authenticated. Call auth_mysql first.''), initial)
   \<and> execute_sql shop_driver initial [(''sql'', JStr ''SELECT 1''), (''params'', JArr [JNum 1])]
       = (Inl (AuthError ''Not authenticated. Call auth_mysql first.''), initial)
   \<and> delete_rows shop_driver initial [(''table'', JStr ''users'')]
       = (Inl (ValidationError ''Missing required parameter: where''), initial)"
proof -
  have r: "reachable shop_driver initial \<and> session initial = None"
    using reachable.start[of shop_driver] by (simp add: initial_def)
  note gw = no_session_operations[where drv = shop_driver and s = initial
      and u = "\<lparr>use_database = ''shop''\<rparr>"
      and x = "\<lparr>exe_sql = ''SELECT 1'', exe_params = None, exe_database = Some ''shop''\<rparr>",
      THEN mp, OF r]
  note t1 = no_session_operations[where drv = shop_driver and s = initial
      and args = "[(''table'', JStr ''users''), (''limit'', JNum 10)]", THEN mp, OF r]
  note t2 = no_session_operations[where drv = shop_driver and s = initial
      and args = "[(''sql'', JStr ''SELECT 1''), (''params'', JArr [JNum 1])]", THEN mp, OF r]
  note t3 = no_session_operations[where drv = shop_driver and s = initial
      and args = "[(''table'', JStr ''users'')]", THEN mp, OF r]
  have p1: "parseSelectRowsArgs [(''table'', JStr ''users''), (''limit'', JNum 10)]
      = Inr \<lparr>sel_table = ''users'', sel_database = None, sel_columns = None, sel_where = None,
              sel_orderBy = None, sel_limit = Some 10, sel_offset = None\<rparr>"
    by (simp add: parseSelectRowsArgs_def and_then_def js_get_def requireString_def
          optionalString_def optionalInteger_def parseWhere_def)
  have p2: "parseExecuteSqlArgs [(''sql'', JStr ''SELECT 1''), (''params'', JArr [JNum 1])]
      = Inr \<lparr>exe_sql = ''SELECT 1'', exe_params = Some [JNum 1], exe_database = None\<rparr>"
    by (simp add: parseExecuteSqlArgs_def and_then_def js_get_def requireString_def
          optionalString_def)
  have p3: "parseDeleteRowsArgs [(''table'', JStr ''users'')]
      = Inl (ValidationError ''Missing required parameter: where'')"
    by (simp add: parseDeleteRowsArgs_def and_then_def js_get_def requireObject_def)
  from gw have a: "listDatabases shop_driver initial
       = (Inl (AuthError ''Not authenticated. Call auth_mysql first.''), initial)
   \<and> useDatabase shop_driver initial \<lparr>use_database = ''shop''\<rparr>
       = (Inl (AuthError ''Not authenticated. Call auth_mysql first.''), initial)
   \<and> executeSql shop_driver initial
         \<lparr>exe_sql = ''SELECT 1'', exe_params = None, exe_database = Some ''shop''\<rparr>
       = (Inl (AuthError ''Not authenticated. Call auth_mysql first.''), initial)"
    by blast
  from t1 p1 have b: "select_rows shop_driver initial [(''table'', JStr ''users''), (''limit'', JNum 10)]
       = (Inl (AuthError ''Not authenticated. Call auth_mysql first.''), initial)"
    by blast
  from t2 p2 have c: "execute_sql shop_driver initial
         [(''sql'', JStr ''SELECT 1''), (''params'', JArr [JNum 1])]
       = (Inl (AuthError ''Not authenticated. Call auth_mysql first.''), initial)"
    by blast
  from t3 p3 have d: "delete_rows shop_driver initial [(''table'', JStr ''users'')]
       = (Inl (ValidationError ''Missing required parameter: where''), initial)"
    by blast
  from a b c d show ?thesis by simp
qed

section \<open>Further properties of the gateway\<close>

text \<open>
  In every state the gateway can reach, a session exists if and only if a pool is
  open, so \<^verbatim>\<open>getAuthStatus\<close> reports \<^verbatim>\<open>authenticated\<close> exactly when it reports a
  session.
\<close>

theorem session_iff_pool:
  "reachable drv s \<longrightarrow>
     (session s = None) = (pool s = None)
     \<and> status_authenticated (getAuthStatus s) = (status_session (getAuthStatus s) \<noteq> None)"
  using reachable_consistent[of drv s] by (auto simp: getAuthStatus_def)

theorem session_iff_pool_witness:
  "session (snd (authMySql shop_driver initial root_args)) \<noteq> None
   \<and> pool (snd (authMySql shop_driver initial root_args)) \<noteq> None"
proof -
  have r: "reachable shop_driver (snd (authMySql shop_driver initial root_args))"
    by (rule reachable.after_authMySql[OF reachable.start])
  have n: "session (snd (authMySql shop_driver initial root_args)) \<noteq> None"
    by (simp add: authMySql_def end_current_pool_def initial_def shop_driver_def
          driver_steps Let_def poolOptions_def root_args_def)
  from session_iff_pool[of shop_driver "snd (authMySql shop_driver initial root_args)"] r n
  show ?thesis by blast
qed

text \<open>
  \<^verbatim>\<open>insertRow\<close> and \<^verbatim>\<open>updateRows\<close> refuse an empty \<^verbatim>\<open>data\<close> mapping with a validation
  error, once the pool exists and the table reference is resolved, and send nothing to
  the driver.
\<close>

theorem empty_data_refused:
  "(pool s = Some p \<and> escapeTableReference s (ins_table i) (ins_database i) = Inr ref
      \<and> ins_data i = [] \<longrightarrow>
      insertRow drv s i = (Inl (ValidationError ''Invalid parameter: data cannot be empty''), s))
   \<and> (pool s = Some p \<and> escapeTableReference s (upd_table u) (upd_database u) = Inr ref
      \<and> upd_data u = [] \<longrightarrow>
      updateRows drv s u = (Inl (ValidationError ''Invalid parameter: data cannot be empty''), s))"
  by (simp add: insertRow_def updateRows_def ensureAuthenticated_def)

theorem empty_data_refused_witness:
  "insertRow shop_driver logged_in
      \<lparr>ins_table = ''orders'', ins_database = None, ins_data = []\<rparr>
     = (Inl (ValidationError ''Invalid parameter: data cannot be empty''), logged_in)"
proof -
  have h: "pool logged_in = Some (Pool 0)
      \<and> escapeTableReference logged_in
           (ins_table \<lparr>ins_table = ''orders'', ins_database = None, ins_data = []\<rparr>)
           (ins_database \<lparr>ins_table = ''orders'', ins_database = None, ins_data = []\<rparr>)
          = Inr ''`shop`.`orders`''
      \<and> ins_data \<lparr>ins_table = ''orders'', ins_database = None, ins_data = []\<rparr> = []"
    by (simp add: escapeTableReference_def nullish_def session_database_def logged_in_def
          root_session_def evaluate_identifier)
  from empty_data_refused[where s = logged_in and p = "Pool 0" and ref = "''`shop`.`orders`''"
         and i = "\<lparr>ins_table = ''orders'', ins_database = None, ins_data = []\<rparr>"
         and drv = shop_driver] h
  show ?thesis by blast
qed

text \<open>
  \<^verbatim>\<open>logout\<close> with no pool is a success that calls nothing; with a pool whose \<^verbatim>\<open>end\<close>
  resolves it closes that pool. Either way no pool and no session are left.
\<close>

theorem logout_clears:
  "(pool s = None \<longrightarrow>
      logout drv s
        = (Inr \<lparr>logout_message = ''MySQL session cleared'', logout_authenticated = False\<rparr>,
           s\<lparr>pool := None, session := None\<rparr>))
   \<and> (pool s = Some p \<and> pool_end drv (calls s) p = Inr () \<longrightarrow>
      logout drv s
        = (Inr \<lparr>logout_message = ''MySQL session cleared'', logout_authenticated = False\<rparr>,
           s\<lparr>calls := calls s @ [PoolEnd p], pool := None, session := None\<rparr>))"
  by (simp add: logout_def end_current_pool_def do_pool_end_def)

theorem logout_clears_witness:
  "logout shop_driver logged_in
     = (Inr \<lparr>logout_message = ''MySQL session cleared'', logout_authenticated = False\<rparr>,
        \<lparr>pool = None, session = None, calls = [PoolEnd (Pool 0)]\<rparr>)
   \<and> logout shop_driver initial
     = (Inr \<lparr>logout_message = ''MySQL session cleared'', logout_authenticated = False\<rparr>,
        initial)"
proof -
  have h: "pool logged_in = Some (Pool 0)
           \<and> pool_end shop_driver (calls logged_in) (Pool 0) = Inr ()"
    by (simp add: logged_in_def shop_driver_def)
  have n: "pool initial = None" by (simp add: initial_def)
  from logout_clears[where s = logged_in and p = "Pool 0" and drv = shop_driver] h
  have a: "logout shop_driver logged_in
        = (Inr \<lparr>logout_message = ''MySQL session cleared'', logout_authenticated = False\<rparr>,
           logged_in\<lparr>calls := calls logged_in @ [PoolEnd (Pool 0)], pool := None, session := None\<rparr>)"
    by blast
  from logout_clears[where s = initial and drv = shop_driver] n
  have b: "logout shop_driver initial
        = (Inr \<lparr>logout_message = ''MySQL session cleared'', logout_authenticated = False\<rparr>,
           initial\<lparr>pool := None, session := None\<rparr>)"
    by blast
  from a b show ?thesis by (simp add: logged_in_def initial_def)
qed

text \<open>
  The target of a row operation: the database argument when one is given, else the
  session's active database, else the validation error that no database is selected;
  table and database are both validated and quoted.
\<close>

theorem escapeTableReference_resolution:
  "(matches_identifier t \<and> matches_identifier d \<longrightarrow>
      escapeTableReference s t (Some d) = Inr (''`'' @ d @ ''`.`'' @ t @ ''`''))
   \<and> (matches_identifier t \<and> matches_identifier d \<and> session_database s = Some d \<longrightarrow>
      escapeTableReference s t None = Inr (''`'' @ d @ ''`.`'' @ t @ ''`''))
   \<and> (matches_identifier t \<and> session_database s = None \<longrightarrow>
      escapeTableReference s t None
        = Inl (ValidationError
            ''No database selected. Call use_database, pass database parameter, or authenticate with a default database.''))
   \<and> (\<not> matches_identifier t \<longrightarrow>
      escapeTableReference s t db = Inl (ValidationError (identifier_message ''table'')))"
proof (intro conjI impI)
  assume a: "matches_identifier t \<and> matches_identifier d"
  then have "d \<noteq> []" by auto
  with a show "escapeTableReference s t (Some d) = Inr (''`'' @ d @ ''`.`'' @ t @ ''`'')"
    by (simp add: escapeTableReference_def escapeIdentifier_ok nullish_def)
next
  assume a: "matches_identifier t \<and> matches_identifier d \<and> session_database s = Some d"
  then have "d \<noteq> []" by auto
  with a show "escapeTableReference s t None = Inr (''`'' @ d @ ''`.`'' @ t @ ''`'')"
    by (simp add: escapeTableReference_def escapeIdentifier_ok nullish_def)
next
  assume "matches_identifier t \<and> session_database s = None"
  then show "escapeTableReference s t None
        = Inl (ValidationError
            ''No database selected. Call use_database, pass database parameter, or authenticate with a default database.'')"
    by (simp add: escapeTableReference_def escapeIdentifier_ok nullish_def no_database_selected_def)
next
  assume "\<not> matches_identifier t"
  then show "escapeTableReference s t db = Inl (ValidationError (identifier_message ''table''))"
    by (simp add: escapeTableReference_def escapeIdentifier_bad)
qed

theorem escapeTableReference_resolution_witness:
  "escapeTableReference logged_in ''orders'' (Some ''analytics'') = Inr ''`analytics`.`orders`''
   \<and> escapeTableReference logged_in ''orders'' None = Inr ''`shop`.`orders`''
   \<and> escapeTableReference initial ''orders'' None
     = Inl (ValidationError
         ''No database selected. Call use_database, pass database parameter, or authenticate with a default database.'')"
proof -
  have i: "matches_identifier ''orders'' \<and> matches_identifier ''analytics''"
    "matches_identifier ''orders'' \<and> matches_identifier ''shop''
       \<and> session_database logged_in = Some ''shop''"
    "matches_identifier ''orders'' \<and> session_database initial = None"
    by (simp_all add: ident_start_def ident_char_def in_range_def code_unit_def
          session_database_def logged_in_def root_session_def initial_def)
  from escapeTableReference_resolution[where t = "''orders''" and d = "''analytics''" and s = logged_in] i(1)
  have a: "escapeTableReference logged_in ''orders'' (Some ''analytics'')
             = Inr (''`'' @ ''analytics'' @ ''`.`'' @ ''orders'' @ ''`'')" by blast
  from escapeTableReference_resolution[where t = "''orders''" and d = "''shop''" and s = logged_in] i(2)
  have b: "escapeTableReference logged_in ''orders'' None
             = Inr (''`'' @ ''shop'' @ ''`.`'' @ ''orders'' @ ''`'')" by blast
  from escapeTableReference_resolution[where t = "''orders''" and s = initial] i(3)
  have c: "escapeTableReference initial ''orders'' None
     = Inl (ValidationError
         ''No database selected. Call use_database, pass database parameter, or authenticate with a default database.'')"
    by blast
  from a b c show ?thesis by simp
qed

end
